theory Spec2Isabelle
  imports Complex_Main
begin

section \<open>JavaScript values, exceptions and strings\<close>

text \<open>
  A JSON value as \<open>JSON.parse\<close> produces it. Numbers are restricted to the safe
  integers (see below); an object keeps its properties as an association list in property
  order, each key once. A value that may be \<open>undefined\<close> is a \<open>json option\<close>, with
  \<open>None\<close> for \<open>undefined\<close>.
\<close>

datatype json =
    JNull
  | JBool bool
  | JNum int
  | JStr string
  | JArr "json list"
  | JObj "(string \<times> json) list"

type_synonym jsval = "json option"

text \<open>
  What a \<open>throw\<close> carries: an instance of \<open>Error\<close> (name and message), or a value that
  is not an \<open>Error\<close>. Thrown non-\<open>Error\<close> values are restricted to primitives, a number
  among them to a safe integer.
\<close>

datatype prim = PUndefined | PNull | PBool bool | PNum int | PStr string

datatype thrown = Error string string | Thrown prim

text \<open>Sequencing of fallible steps and \<open>try { ... } catch (e) { ... }\<close>.\<close>

definition bindE :: "thrown + 'a \<Rightarrow> ('a \<Rightarrow> thrown + 'b) \<Rightarrow> thrown + 'b" where
  "bindE m f = (case m of Inl e \<Rightarrow> Inl e | Inr v \<Rightarrow> f v)"

definition try_catch :: "thrown + 'a \<Rightarrow> (thrown \<Rightarrow> thrown + 'a) \<Rightarrow> thrown + 'a" where
  "try_catch body handler = (case body of Inl e \<Rightarrow> handler e | Inr v \<Rightarrow> Inr v)"

text \<open>
  The numbers of JavaScript are doubles. The model stands for the safe integers only, those
  of magnitude at most \<open>Number.MAX_SAFE_INTEGER\<close> = \<open>2 ^ 53 - 1\<close>: a double holds each of them
  exactly, \<open>n + 1\<close>, \<open>n - m\<close> and \<open>n < m\<close> on them are those of the integers as long as the
  result is safe, and \<open>String(n)\<close> is the plain decimal numeral. For any other number
  \<open>String(n)\<close> is left unspecified (a double beyond that range is printed with the fewest
  digits that identify it, in exponent form from \<open>10 ^ 21\<close> up).
\<close>

definition MAX_SAFE_INTEGER :: int where
  "MAX_SAFE_INTEGER = 9007199254740991"

definition isSafeInteger :: "int \<Rightarrow> bool" where
  "isSafeInteger n = (- MAX_SAFE_INTEGER \<le> n \<and> n \<le> MAX_SAFE_INTEGER)"

definition digit_char :: "nat \<Rightarrow> char" where
  "digit_char d = ''0123456789'' ! d"

function decimal :: "nat \<Rightarrow> string \<Rightarrow> string" where
  "decimal n acc =
     (let acc' = digit_char (n mod 10) # acc
      in if n div 10 = 0 then acc' else decimal (n div 10) acc')"
  by pat_completeness auto
termination
  by (relation "measure fst") auto

definition Number_toString :: "int \<Rightarrow> string" where
  "Number_toString i =
     (if isSafeInteger i
      then (if 0 \<le> i then decimal (nat i) [] else CHR ''-'' # decimal (nat (- i)) [])
      else undefined)"

text \<open>
  \<open>String.prototype.trim\<close>. A \<open>char\<close> stands for a code unit below 256; the white space
  and line terminators of ECMAScript in that range are TAB, LF, VT, FF, CR, SP and NBSP.
\<close>

definition is_ws :: "char \<Rightarrow> bool" where
  "is_ws c = (of_char c \<in> {9, 10, 11, 12, 13, 32, 160 :: nat})"

definition trim_end :: "string \<Rightarrow> string" where
  "trim_end s = rev (dropWhile is_ws (rev s))"

definition trim :: "string \<Rightarrow> string" where
  "trim s = dropWhile is_ws (trim_end s)"

text \<open>\<open>s.startsWith(p)\<close>, and the split of \<open>s\<close> around the first occurrence of \<open>p\<close>.\<close>

definition startsWith :: "string \<Rightarrow> string \<Rightarrow> bool" where
  "startsWith s p = (take (length p) s = p)"

fun split_first :: "string \<Rightarrow> string \<Rightarrow> (string \<times> string) option" where
  "split_first p [] = (if p = [] then Some ([], []) else None)"
| "split_first p (c # cs) =
     (if startsWith (c # cs) p then Some ([], drop (length p) (c # cs))
      else (case split_first p cs of
              None \<Rightarrow> None
            | Some (before, after) \<Rightarrow> Some (c # before, after)))"

definition str_includes :: "string \<Rightarrow> string \<Rightarrow> bool" where
  "str_includes s p = (split_first p s \<noteq> None)"

section \<open>Context store and prompt builder\<close>

record Agent =
  agent_id :: string
  role :: string
  goal :: string

record TimelineEntry =
  agentId :: string
  entry_role :: string
  entry_output :: string
  startedAt :: int
  endedAt :: int

record ContextStore =
  userInput :: string
  outputs :: "string \<rightharpoonup> string"
  timeline :: "TimelineEntry list"

record Prompt =
  system :: string
  user :: string

text \<open>The block that the loop of \<open>buildPrompt\<close> appends for one timeline entry.\<close>

definition entry_block :: "TimelineEntry \<Rightarrow> string" where
  "entry_block entry =
     ''\<newline>--- '' @ entry_role entry @ '' ('' @ agentId entry @ '') ---\<newline>''
       @ entry_output entry @ ''\<newline>''"

definition buildPrompt :: "Agent \<Rightarrow> ContextStore \<Rightarrow> Prompt" where
  "buildPrompt agent context =
     (let systemPrompt = trim (''\<newline>You are acting as: '' @ role agent
            @ ''\<newline>\<newline>Your goal:\<newline>'' @ goal agent
            @ ''\<newline>\<newline>Follow the goal strictly. Be concise, clear, and relevant.\<newline>'');
          userPrompt = ''User input:\<newline>'' @ userInput context @ ''\<newline>'';
          userPrompt = (if length (timeline context) > 0
                        then foldl (\<lambda>acc entry. acc @ entry_block entry)
                               (userPrompt @ ''\<newline>Previous agent outputs:\<newline>'')
                               (timeline context)
                        else userPrompt)
      in \<lparr> system = systemPrompt, user = trim userPrompt \<rparr>)"

section \<open>The outside world\<close>

text \<open>
  Everything outside the program is an oracle: the clock behind \<open>Date.now()\<close>, the
  language-model backend, and the library functions \<open>JSON.parse\<close> and \<open>JSON.stringify\<close>.
  The world counts the clock reads and keeps the traces of the calls that left the program;
  an oracle's answer may depend on the position of the call in its trace. A tool provider
  sees the clock and its own input and output only (\<open>sys\<close>); the backend requests and
  the dispatches of the tool registry are traces of the whole \<open>world\<close>. The calls to
  the loggers (\<open>llmLogger\<close>, \<open>orchestratorLogger\<close>) return nothing, are taken not to throw,
  and are left out.
\<close>

record LLMRequest =
  req_system :: string
  req_user :: string
  req_temperature :: "rat option"

datatype io_event =
    NewIsolate int
  | PrepareContext
  | RunScript string int
  | HeapStatistics
  | DisposeIsolate
  | FsCall string string
  | WebSearch string jsval json

record sys =
  ticks :: nat
  io_trace :: "io_event list"

record world = sys +
  llm_calls :: "LLMRequest list"
  tool_calls :: "(jsval \<times> json) list"

record env =
  clock :: "nat \<Rightarrow> int"
  llm :: "nat \<Rightarrow> LLMRequest \<Rightarrow> thrown + string"
  JSON_parse :: "string \<Rightarrow> thrown + json"
  JSON_stringify :: "json \<Rightarrow> string"
  JSON_stringify_indent2 :: "json \<Rightarrow> string"

type_synonym ('s, 'a) io = "'s \<Rightarrow> (thrown + 'a) \<times> 's"

definition Date_now :: "(nat \<Rightarrow> int) \<Rightarrow> 's sys_scheme \<Rightarrow> int" where
  "Date_now clk w = clk (ticks w)"

definition tick :: "'s sys_scheme \<Rightarrow> 's sys_scheme" where
  "tick w = w\<lparr>ticks := Suc (ticks w)\<rparr>"

definition returnIO :: "'a \<Rightarrow> ('s, 'a) io" where
  "returnIO x = (\<lambda>w. (Inr x, w))"

definition throwIO :: "thrown \<Rightarrow> ('s, 'a) io" where
  "throwIO e = (\<lambda>w. (Inl e, w))"

definition liftE :: "thrown + 'a \<Rightarrow> ('s, 'a) io" where
  "liftE r = (\<lambda>w. (r, w))"

definition bindIO :: "('s, 'a) io \<Rightarrow> ('a \<Rightarrow> ('s, 'b) io) \<Rightarrow> ('s, 'b) io" where
  "bindIO m f = (\<lambda>w. case m w of (Inl e, w') \<Rightarrow> (Inl e, w') | (Inr v, w') \<Rightarrow> f v w')"

definition catchIO :: "('s, 'a) io \<Rightarrow> (thrown \<Rightarrow> ('s, 'a) io) \<Rightarrow> ('s, 'a) io" where
  "catchIO m handler = (\<lambda>w. case m w of (Inl e, w') \<Rightarrow> handler e w' | (Inr v, w') \<Rightarrow> (Inr v, w'))"

text \<open>\<open>try { m } finally { fin }\<close>: a \<open>finally\<close> block that throws replaces the outcome.\<close>

definition finallyIO :: "('s, 'a) io \<Rightarrow> ('s, unit) io \<Rightarrow> ('s, 'a) io" where
  "finallyIO m fin =
     (\<lambda>w. case m w of (r, w') \<Rightarrow>
             (case fin w' of (Inl e, w'') \<Rightarrow> (Inl e, w'') | (Inr _, w'') \<Rightarrow> (r, w'')))"

definition nowIO :: "(nat \<Rightarrow> int) \<Rightarrow> ('s sys_scheme, int) io" where
  "nowIO clk = (\<lambda>w. (Inr (Date_now clk w), tick w))"

text \<open>A provider's call out of the program: it is answered by the oracle and recorded.\<close>

definition external :: "io_event \<Rightarrow> (nat \<Rightarrow> thrown + 'a) \<Rightarrow> ('s sys_scheme, 'a) io" where
  "external ev oracle =
     (\<lambda>w. (oracle (length (io_trace w)), w\<lparr>io_trace := io_trace w @ [ev]\<rparr>))"

text \<open>\<open>llm.generate(req)\<close>: the request is recorded and the backend answers or throws.\<close>

definition generate :: "env \<Rightarrow> LLMRequest \<Rightarrow> (world, string) io" where
  "generate e req =
     (\<lambda>w. (llm e (length (llm_calls w)) req, w\<lparr>llm_calls := llm_calls w @ [req]\<rparr>))"

text \<open>A provider's step, run in the world: it reads and changes the \<open>sys\<close> part only.\<close>

definition sys_of :: "world \<Rightarrow> sys" where
  "sys_of w = \<lparr> ticks = ticks w, io_trace = io_trace w \<rparr>"

definition in_world :: "(sys, 'a) io \<Rightarrow> (world, 'a) io" where
  "in_world m =
     (\<lambda>w. case m (sys_of w) of
             (r, s) \<Rightarrow> (r, w\<lparr>ticks := ticks s, io_trace := io_trace s\<rparr>))"

subsection \<open>Conversions of JavaScript\<close>

text \<open>
  \<open>String(v)\<close>, which a template literal applies to an interpolated value. An object is
  converted by its \<open>toString\<close>: a plain object inherits the one of \<open>Object.prototype\<close>,
  which gives \<open>[object Object]\<close>, but an own property \<open>toString\<close> hides it, and since no
  JSON value is callable (and \<open>valueOf\<close>, own or inherited, gives no primitive) the
  conversion then throws a \<open>TypeError\<close>. An array is converted by \<open>join\<close>, which converts
  its elements in turn, \<open>null\<close> to the empty string.
\<close>

fun json_String :: "json \<Rightarrow> thrown + string" and json_join :: "json list \<Rightarrow> thrown + string" where
  "json_String JNull = Inr ''null''"
| "json_String (JBool b) = Inr (if b then ''true'' else ''false'')"
| "json_String (JNum n) = Inr (Number_toString n)"
| "json_String (JStr s) = Inr s"
| "json_String (JArr xs) = json_join xs"
| "json_String (JObj kvs) =
     (if map_of kvs ''toString'' \<noteq> None
      then Inl (Error ''TypeError'' ''Cannot convert object to primitive value'')
      else Inr ''[object Object]'')"
| "json_join [] = Inr []"
| "json_join [x] = (if x = JNull then Inr [] else json_String x)"
| "json_join (x # y # ys) =
     bindE (if x = JNull then Inr [] else json_String x) (\<lambda>first.
     bindE (json_join (y # ys)) (\<lambda>rest. Inr (first @ '','' @ rest)))"

definition js_String :: "jsval \<Rightarrow> thrown + string" where
  "js_String v = (case v of None \<Rightarrow> Inr ''undefined'' | Some j \<Rightarrow> json_String j)"

definition prim_String :: "prim \<Rightarrow> string" where
  "prim_String p =
     (case p of PUndefined \<Rightarrow> ''undefined'' | PNull \<Rightarrow> ''null''
      | PBool b \<Rightarrow> (if b then ''true'' else ''false'')
      | PNum n \<Rightarrow> Number_toString n | PStr s \<Rightarrow> s)"

text \<open>\<open>error instanceof Error ? error.message : String(error)\<close>\<close>

definition error_message :: "thrown \<Rightarrow> string" where
  "error_message err = (case err of Error n m \<Rightarrow> m | Thrown p \<Rightarrow> prim_String p)"

text \<open>Truthiness, as \<open>!v\<close> and \<open>v || d\<close> test it.\<close>

definition truthy :: "jsval \<Rightarrow> bool" where
  "truthy v =
     (case v of None \<Rightarrow> False | Some JNull \<Rightarrow> False | Some (JBool b) \<Rightarrow> b
      | Some (JNum n) \<Rightarrow> n \<noteq> 0 | Some (JStr s) \<Rightarrow> s \<noteq> [] | Some _ \<Rightarrow> True)"

text \<open>
  The property read \<open>v.k\<close> for a key that only an object of the program's own data can
  carry (\<open>tool\<close>, \<open>parameters\<close>, \<open>language\<close>, \<open>code\<close>, ...): on \<open>null\<close> it throws a
  \<open>TypeError\<close>, on an object it is the property or \<open>undefined\<close>, on any other value it is
  \<open>undefined\<close>.
\<close>

definition get_prop :: "json \<Rightarrow> string \<Rightarrow> thrown + jsval" where
  "get_prop v k =
     (case v of
        JNull \<Rightarrow> Inl (Error ''TypeError''
                   (''Cannot read properties of null (reading '' @ [CHR 0x27] @ k @ [CHR 0x27] @ '')''))
      | JObj kvs \<Rightarrow> Inr (map_of kvs k)
      | _ \<Rightarrow> Inr None)"

section \<open>Tool schema and tool registry\<close>

record MCPTool =
  tool_name :: string
  tool_description :: string
  tool_parameters :: json
  tool_executor :: string

record MCPToolCall =
  toolName :: jsval
  parameters :: json
  timestamp :: int

record MCPToolResult =
  success :: bool
  result :: "json option"
  error :: "string option"
  executionTime :: int

record MCPToolProvider =
  getSchema :: MCPTool
  execute :: "json \<Rightarrow> (sys, MCPToolResult) io"

record MCPToolRegistry =
  tools :: "string \<rightharpoonup> MCPToolProvider"

definition register :: "MCPToolProvider \<Rightarrow> MCPToolRegistry \<Rightarrow> MCPToolRegistry" where
  "register tool reg = reg\<lparr>tools := (tools reg)(tool_name (getSchema tool) \<mapsto> tool)\<rparr>"

text \<open>
  \<open>this.tools.get(toolName)\<close>: the map is keyed by strings, so a value that is not a
  string finds nothing.
\<close>

definition tools_get :: "MCPToolRegistry \<Rightarrow> jsval \<Rightarrow> MCPToolProvider option" where
  "tools_get reg name = (case name of Some (JStr s) \<Rightarrow> tools reg s | _ \<Rightarrow> None)"

text \<open>
  \<open>executeTool\<close>. Every path hands a record to the event sink on entry (\<open>TOOL_NOT_FOUND\<close> or
  \<open>TOOL_EXECUTION_START\<close>): the dispatch is noted in \<open>tool_calls\<close>. The message of each
  log call is a template literal on \<open>toolName\<close>, evaluated before the call is made; the
  two on entry stand outside the \<open>try\<close>, so a name that \<open>String\<close> cannot convert makes
  \<open>executeTool\<close> throw there.
\<close>

definition note_dispatch :: "jsval \<Rightarrow> json \<Rightarrow> (world, unit) io" where
  "note_dispatch name params = (\<lambda>w. (Inr (), w\<lparr>tool_calls := tool_calls w @ [(name, params)]\<rparr>))"

definition executeTool :: "MCPToolRegistry \<Rightarrow> jsval \<Rightarrow> json \<Rightarrow> (world, MCPToolResult) io" where
  "executeTool reg name params =
     (case tools_get reg name of
        None \<Rightarrow>
          bindIO (liftE (js_String name)) (\<lambda>_.
          bindIO (note_dispatch name params) (\<lambda>_.
          bindIO (liftE (js_String name)) (\<lambda>text.
            returnIO \<lparr> success = False, result = None,
                       error = Some (''Tool '' @ text @ '' not found''),
                       executionTime = 0 \<rparr>)))
      | Some tool \<Rightarrow>
          bindIO (liftE (js_String name)) (\<lambda>_.
          bindIO (note_dispatch name params) (\<lambda>_.
            catchIO
              (bindIO (in_world (execute tool params)) (\<lambda>result.
               bindIO (liftE (js_String name)) (\<lambda>_.
                 returnIO result)))
              (\<lambda>err.
                 bindIO (liftE (js_String name)) (\<lambda>_.
                   returnIO \<lparr> success = False, result = None,
                              error = Some (error_message err),
                              executionTime = 0 \<rparr>)))))"

section \<open>Tool-calling loop\<close>

record ToolAwareLLMParams =
  system_prompt :: string
  user_prompt :: string
  temperature :: "rat option"
  llm_tools :: "MCPTool list option"
  maxToolCalls :: "int option"

record ParsedToolCall =
  parsed_toolName :: jsval
  parsed_parameters :: json

record ToolAwareOutput =
  final_output :: string
  toolCalls :: "MCPToolCall list"

definition buildToolPrompt :: "env \<Rightarrow> string \<Rightarrow> MCPTool list \<Rightarrow> string" where
  \<open>buildToolPrompt e baseSystem ts =
     (if length ts = 0 then baseSystem
      else
        (let toolsSection = ''\<newline>\<newline>You have access to the following tools:\<newline>\<newline>'';
             toolsSection = foldl (\<lambda>acc tool.
                 acc @ (''Tool: '' @ tool_name tool @ ''\<newline>'')
                     @ (''Description: '' @ tool_description tool @ ''\<newline>'')
                     @ (''Parameters: '' @ JSON_stringify_indent2 e (tool_parameters tool) @ ''\<newline>'')
                     @ ''\<newline>'') toolsSection ts;
             toolsSection = toolsSection @
               ''\<newline>To use a tool, respond with ONLY this format (no other text):\<newline><tool_call>\<newline>{\<newline>  "tool": "tool_name",\<newline>  "parameters": { ... }\<newline>}\<newline></tool_call>\<newline>\<newline>When you have the information you need from tools, respond normally without the tool_call tags.\<newline>''
         in baseSystem @ toolsSection))\<close>

text \<open>
  \<open>response.match(/<tool_call>(.*?)<\/tool_call>/s)\<close>, capture group 1: the text between
  the first opening tag and the first closing tag after it.
\<close>

definition match_tool_call :: "string \<Rightarrow> string option" where
  "match_tool_call response =
     (case split_first ''<tool_call>'' response of
        None \<Rightarrow> None
      | Some (_, rest) \<Rightarrow>
          (case split_first ''</tool_call>'' rest of
             None \<Rightarrow> None
           | Some (inner, _) \<Rightarrow> Some inner))"

definition parseToolCall :: "env \<Rightarrow> string \<Rightarrow> thrown + ParsedToolCall option" where
  "parseToolCall e response =
     (case match_tool_call response of
        None \<Rightarrow> Inr None
      | Some m1 \<Rightarrow>
          try_catch
            (bindE (JSON_parse e (trim m1)) (\<lambda>parsed.
             bindE (get_prop parsed ''tool'') (\<lambda>tool.
             bindE (get_prop parsed ''parameters'') (\<lambda>ps.
               Inr (Some \<lparr> parsed_toolName = tool,
                           parsed_parameters = (if truthy ps then the ps else JObj []) \<rparr>)))))
            (\<lambda>err. Inr None))"

text \<open>The tool result as the object that \<open>JSON.stringify\<close> receives; an absent field is left out.\<close>

definition result_json :: "MCPToolResult \<Rightarrow> json" where
  "result_json r =
     JObj ([(''success'', JBool (success r))]
           @ (case result r of None \<Rightarrow> [] | Some v \<Rightarrow> [(''result'', v)])
           @ (case error r of None \<Rightarrow> [] | Some m \<Rightarrow> [(''error'', JStr m)])
           @ [(''executionTime'', JNum (executionTime r))])"

definition buildToolResultPrompt ::
  "env \<Rightarrow> string \<Rightarrow> ParsedToolCall \<Rightarrow> MCPToolResult \<Rightarrow> thrown + string" where
  "buildToolResultPrompt e previousPrompt toolCall r =
     bindE (js_String (parsed_toolName toolCall)) (\<lambda>name.
       Inr (previousPrompt @ ''\<newline>\<newline><tool_result>\<newline>Tool: '' @ name
              @ ''\<newline>Parameters: '' @ JSON_stringify e (parsed_parameters toolCall)
              @ ''\<newline>Result: '' @ JSON_stringify_indent2 e (result_json r)
              @ ''\<newline></tool_result>\<newline>\<newline>Based on this tool result, provide your final response (without using more tools unless necessary).''))"

text \<open>\<open>params.maxToolCalls || 5\<close>\<close>

definition maxIterations :: "ToolAwareLLMParams \<Rightarrow> int" where
  "maxIterations params =
     (case maxToolCalls params of None \<Rightarrow> 5 | Some n \<Rightarrow> if n = 0 then 5 else n)"

text \<open>
  The \<open>while\<close> loop of \<open>generateWithTools\<close>, from the loop variables \<open>iteration\<close>,
  \<open>currentPrompt\<close> and \<open>toolCalls\<close>. It returns how the loop was left (the thrown value or
  the final response) together with \<open>toolCalls\<close> as it stands at that point. The message
  of the \<open>TOOL_CALL_DETECTED\<close> log call is a template literal on the tool name, evaluated
  before the tool is dispatched. The counter is an integer: \<open>iteration++\<close> and
  \<open>iteration < maxIterations\<close> are those of the code for a bound that is a safe integer.
\<close>

function generateWithTools_loop ::
  "env \<Rightarrow> MCPToolRegistry \<Rightarrow> ToolAwareLLMParams \<Rightarrow> int \<Rightarrow> string \<Rightarrow> MCPToolCall list
     \<Rightarrow> world \<Rightarrow> ((thrown + string) \<times> MCPToolCall list) \<times> world" where
  "generateWithTools_loop e reg params iteration currentPrompt tcs w =
     (if iteration < maxIterations params then
        (let iteration = iteration + 1;
             systemWithTools = buildToolPrompt e (system_prompt params)
                                 (case llm_tools params of None \<Rightarrow> [] | Some ts \<Rightarrow> ts)
         in case generate e \<lparr> req_system = systemWithTools, req_user = currentPrompt,
                              req_temperature = temperature params \<rparr> w of
              (Inl err, w1) \<Rightarrow> ((Inl err, tcs), w1)
            | (Inr response, w1) \<Rightarrow>
                (case parseToolCall e response of
                   Inl err \<Rightarrow> ((Inl err, tcs), w1)
                 | Inr None \<Rightarrow> ((Inr response, tcs), w1)
                 | Inr (Some toolCall) \<Rightarrow>
                     (case js_String (parsed_toolName toolCall) of
                        Inl err \<Rightarrow> ((Inl err, tcs), w1)
                      | Inr _ \<Rightarrow>
                     (case executeTool reg (parsed_toolName toolCall) (parsed_parameters toolCall) w1 of
                        (Inl err, w2) \<Rightarrow> ((Inl err, tcs), w2)
                      | (Inr r, w2) \<Rightarrow>
                          (let tcs = tcs @ [\<lparr> toolName = parsed_toolName toolCall,
                                                parameters = parsed_parameters toolCall,
                                                timestamp = Date_now (clock e) w2 \<rparr>];
                               w3 = tick w2
                           in case buildToolResultPrompt e currentPrompt toolCall r of
                                Inl err \<Rightarrow> ((Inl err, tcs), w3)
                              | Inr currentPrompt \<Rightarrow>
                                  generateWithTools_loop e reg params iteration currentPrompt tcs w3)))))
      else
        ((Inl (Error ''Error'' (''Max tool call iterations ('' @ Number_toString (maxIterations params)
                                   @ '') reached'')), tcs), w))"
  by pat_completeness auto
termination
  by (relation "measure (\<lambda>(e, reg, params, iteration, currentPrompt, tcs, w).
                   nat (maxIterations params - iteration))") auto

definition generateWithTools ::
  "env \<Rightarrow> MCPToolRegistry \<Rightarrow> ToolAwareLLMParams \<Rightarrow> (world, ToolAwareOutput) io" where
  "generateWithTools e reg params w =
     (case generateWithTools_loop e reg params 0 (user_prompt params) [] w of
        ((Inl err, tcs), w') \<Rightarrow> (Inl err, w')
      | ((Inr response, tcs), w') \<Rightarrow> (Inr \<lparr> final_output = response, toolCalls = tcs \<rparr>, w'))"

section \<open>Code execution tool\<close>

record CodeExecutionToolConfig =
  config_timeout :: "int option"
  config_memory_limit :: "int option"

record CodeExecutionTool =
  timeout :: int
  memoryLimit :: int

text \<open>The constructor: \<open>config.timeout || 5000\<close> and \<open>config.memory_limit || 16\<close>.\<close>

definition new_CodeExecutionTool :: "CodeExecutionToolConfig \<Rightarrow> CodeExecutionTool" where
  "new_CodeExecutionTool config =
     \<lparr> timeout = (case config_timeout config of None \<Rightarrow> 5000 | Some t \<Rightarrow> if t = 0 then 5000 else t),
       memoryLimit = (case config_memory_limit config of None \<Rightarrow> 16 | Some m \<Rightarrow> if m = 0 then 16 else m) \<rparr>"

text \<open>
  The isolated-vm library, by what its calls answer: creating an isolate; preparing a
  context (\<open>createContext\<close>, the \<open>$log\<close> callback and the console shim); compiling the
  wrapped code and running it in that context under the timeout, which gives the script's
  value and the log lines captured during the run; reading the heap statistics
  (\<open>used_heap_size\<close>); disposing of the isolate.
\<close>

record ivm =
  new_Isolate :: "nat \<Rightarrow> int \<Rightarrow> thrown + unit"
  prepare_context :: "nat \<Rightarrow> thrown + unit"
  run_in_context :: "nat \<Rightarrow> string \<Rightarrow> int \<Rightarrow> thrown + (jsval \<times> string list)"
  getHeapStatisticsSync :: "nat \<Rightarrow> thrown + nat"
  dispose :: "nat \<Rightarrow> thrown + unit"

definition CodeExecutionTool_getSchema :: MCPTool where
  "CodeExecutionTool_getSchema =
     \<lparr> tool_name = ''code_execution'',
       tool_description = ''Execute JavaScript code in a secure isolated V8 environment'',
       tool_parameters = JObj
         [(''type'', JStr ''object''),
          (''properties'', JObj
             [(''language'', JObj [(''type'', JStr ''string''),
                                   (''enum'', JArr [JStr ''javascript'', JStr ''python'']),
                                   (''description'', JStr ''Programming language'')]),
              (''code'', JObj [(''type'', JStr ''string''),
                               (''description'', JStr ''Code to execute'')])]),
          (''required'', JArr [JStr ''language'', JStr ''code''])],
       tool_executor = ''code_execution'' \<rparr>"

text \<open>
  \<open>(n / 1024 / 1024).toFixed(2)\<close> for a byte count \<open>n\<close>, a safe integer (the divisions
  by a power of 2 are then exact): hundredths, rounded half up.
\<close>

definition toFixed2_MB :: "nat \<Rightarrow> string" where
  "toFixed2_MB n =
     (let h = (200 * n + 1048576) div 2097152
      in decimal (h div 100) [] @ ''.'' @ [digit_char (h mod 100 div 10), digit_char (h mod 10)])"

text \<open>
  \<open>error.message || String(error)\<close> in the \<open>catch\<close> of \<open>executeJavaScript\<close>: reading
  \<open>message\<close> off \<open>null\<close> or \<open>undefined\<close> throws; an \<open>Error\<close> with an empty message falls
  through to \<open>String(error)\<close>, which is then its name.
\<close>

definition message_or_String :: "thrown \<Rightarrow> thrown + string" where
  "message_or_String err =
     (case err of
        Error n m \<Rightarrow> Inr (if m \<noteq> [] then m else n)
      | Thrown PUndefined \<Rightarrow> Inl (Error ''TypeError''
            (''Cannot read properties of undefined (reading '' @ [CHR 0x27] @ ''message'' @ [CHR 0x27] @ '')''))
      | Thrown PNull \<Rightarrow> Inl (Error ''TypeError''
            (''Cannot read properties of null (reading '' @ [CHR 0x27] @ ''message'' @ [CHR 0x27] @ '')''))
      | Thrown p \<Rightarrow> Inr (prim_String p))"

text \<open>The text handed to the isolate: the code inside a function that is called at once.\<close>

definition wrappedCode :: "string \<Rightarrow> string" where
  "wrappedCode code =
     ''\<newline>        (function() {\<newline>          '' @ code @ ''\<newline>        })();\<newline>      ''"

definition executeJavaScript ::
  "(nat \<Rightarrow> int) \<Rightarrow> ivm \<Rightarrow> CodeExecutionTool \<Rightarrow> jsval \<Rightarrow> (sys, MCPToolResult) io" where
  "executeJavaScript clk vm this code =
     bindIO (nowIO clk) (\<lambda>startTime.
     bindIO (external (NewIsolate (memoryLimit this)) (\<lambda>n. new_Isolate vm n (memoryLimit this))) (\<lambda>isolate.
       finallyIO
         (catchIO
            (bindIO (external PrepareContext (prepare_context vm)) (\<lambda>_.
             bindIO (liftE (js_String code)) (\<lambda>codeText.
             bindIO (external (RunScript (wrappedCode codeText) (timeout this))
                       (\<lambda>n. run_in_context vm n (wrappedCode codeText) (timeout this))) (\<lambda>(r, logs).
                bindIO (nowIO clk) (\<lambda>t.
                  let executionTime = t - startTime
                  in bindIO (external HeapStatistics (getHeapStatisticsSync vm)) (\<lambda>used_heap_size.
                       returnIO
                         \<lparr> success = True,
                           result = Some (JObj
                             ((case r of None \<Rightarrow> [] | Some v \<Rightarrow> [(''returnValue'', v)])
                              @ [(''output'', JArr (map JStr logs)),
                                 (''language'', JStr ''javascript''),
                                 (''executionTime'', JNum executionTime),
                                 (''memoryUsedMB'', JStr (toFixed2_MB used_heap_size))])),
                           error = None,
                           executionTime = executionTime \<rparr>))))))
            (\<lambda>err.
               bindIO (nowIO clk) (\<lambda>t.
                 let executionTime = t - startTime
                 in bindIO (liftE (message_or_String err)) (\<lambda>errorMessage.
                      let errorMessage =
                            (if str_includes errorMessage ''timeout''
                             then ''Code execution timed out after '' @ Number_toString (timeout this) @ ''ms''
                             else if str_includes errorMessage ''memory''
                             then ''Code exceeded memory limit of '' @ Number_toString (memoryLimit this) @ ''MB''
                             else errorMessage)
                      in returnIO \<lparr> success = False, result = None, error = Some errorMessage,
                                     executionTime = executionTime \<rparr>))))
         (external DisposeIsolate (dispose vm))))"

definition executePython :: "jsval \<Rightarrow> (sys, MCPToolResult) io" where
  "executePython code =
     returnIO \<lparr> success = False, result = None,
                error = Some ''Python execution not yet implemented. Install python-shell package and configure Python runtime.'',
                executionTime = 0 \<rparr>"

definition CodeExecutionTool_execute ::
  "(nat \<Rightarrow> int) \<Rightarrow> ivm \<Rightarrow> CodeExecutionTool \<Rightarrow> json \<Rightarrow> (sys, MCPToolResult) io" where
  "CodeExecutionTool_execute clk vm this params =
     bindIO (nowIO clk) (\<lambda>startTime.
       catchIO
         (bindIO (liftE (get_prop params ''language'')) (\<lambda>language.
            if language = Some (JStr ''javascript'')
            then bindIO (liftE (get_prop params ''code'')) (executeJavaScript clk vm this)
            else bindIO (liftE (get_prop params ''code'')) executePython))
         (\<lambda>error.
            bindIO (nowIO clk) (\<lambda>t.
              returnIO \<lparr> success = False, result = None, error = Some (error_message error),
                         executionTime = t - startTime \<rparr>)))"

definition CodeExecutionTool_provider ::
  "(nat \<Rightarrow> int) \<Rightarrow> ivm \<Rightarrow> CodeExecutionTool \<Rightarrow> MCPToolProvider" where
  "CodeExecutionTool_provider clk vm this =
     \<lparr> getSchema = CodeExecutionTool_getSchema, execute = CodeExecutionTool_execute clk vm this \<rparr>"

section \<open>Filesystem tool\<close>

record FilesystemToolConfig =
  config_workingDirectory :: "string option"
  config_allowedExtensions :: "string list option"

record FilesystemTool =
  workingDirectory :: string
  allowedExtensions :: "string list"

text \<open>The constructor; \<open>cwd\<close> is \<open>process.cwd()\<close>. An empty string is falsy, an array never is.\<close>

definition new_FilesystemTool :: "string \<Rightarrow> FilesystemToolConfig \<Rightarrow> FilesystemTool" where
  "new_FilesystemTool cwd config =
     \<lparr> workingDirectory =
         (case config_workingDirectory config of None \<Rightarrow> cwd | Some d \<Rightarrow> if d = [] then cwd else d),
       allowedExtensions =
         (case config_allowedExtensions config of
            None \<Rightarrow> [''.txt'', ''.md'', ''.json'', ''.yml'', ''.yaml'', ''.js'', ''.ts'', ''.csv'']
          | Some exts \<Rightarrow> exts) \<rparr>"

text \<open>
  Node's \<open>path\<close> and \<open>fs/promises\<close> modules, by what their calls answer. \<open>stat\<close> gives the
  size and the modification time, \<open>readdir\<close> the entries with their \<open>isDirectory()\<close>.
\<close>

record node_fs =
  path_resolve :: "string \<Rightarrow> string \<Rightarrow> string"
  path_extname :: "string \<Rightarrow> string"
  path_dirname :: "string \<Rightarrow> string"
  readFile :: "nat \<Rightarrow> string \<Rightarrow> thrown + string"
  stat :: "nat \<Rightarrow> string \<Rightarrow> thrown + (int \<times> json)"
  mkdir :: "nat \<Rightarrow> string \<Rightarrow> thrown + unit"
  writeFile :: "nat \<Rightarrow> string \<Rightarrow> json \<Rightarrow> thrown + unit"
  readdir :: "nat \<Rightarrow> string \<Rightarrow> thrown + (string \<times> bool) list"
  access :: "nat \<Rightarrow> string \<Rightarrow> thrown + unit"
  unlink :: "nat \<Rightarrow> string \<Rightarrow> thrown + unit"

definition FilesystemTool_getSchema :: MCPTool where
  "FilesystemTool_getSchema =
     \<lparr> tool_name = ''filesystem'',
       tool_description = ''Read, write, and manage files and directories'',
       tool_parameters = JObj
         [(''type'', JStr ''object''),
          (''properties'', JObj
             [(''operation'', JObj [(''type'', JStr ''string''),
                                    (''enum'', JArr [JStr ''read'', JStr ''write'', JStr ''list'',
                                                     JStr ''exists'', JStr ''delete'']),
                                    (''description'', JStr ''Operation to perform'')]),
              (''path'', JObj [(''type'', JStr ''string''),
                               (''description'', JStr ''File or directory path'')]),
              (''content'', JObj [(''type'', JStr ''string''),
                                  (''description'', JStr ''Content to write (for write operation)'')])]),
          (''required'', JArr [JStr ''operation'', JStr ''path''])],
       tool_executor = ''filesystem'' \<rparr>"

text \<open>\<open>path.resolve(dir, p)\<close> rejects an argument that is not a string.\<close>

definition resolve_checked :: "node_fs \<Rightarrow> string \<Rightarrow> jsval \<Rightarrow> thrown + string" where
  \<open>resolve_checked fs dir p =
     (case p of
        Some (JStr s) \<Rightarrow> Inr (path_resolve fs dir s)
      | _ \<Rightarrow> Inl (Error ''TypeError'' ''The "paths[1]" argument must be of type string''))\<close>

text \<open>An object literal: a property whose value is \<open>undefined\<close> is left out.\<close>

definition obj_prop :: "string \<Rightarrow> jsval \<Rightarrow> (string \<times> json) list" where
  "obj_prop k v = (case v of None \<Rightarrow> [] | Some j \<Rightarrow> [(k, j)])"

text \<open>The \<open>switch\<close> of \<open>execute\<close>; its value is \<open>result\<close>, \<open>undefined\<close> when no case matches.\<close>

definition FilesystemTool_switch ::
  "node_fs \<Rightarrow> json \<Rightarrow> jsval \<Rightarrow> jsval \<Rightarrow> string \<Rightarrow> (sys, jsval) io" where
  "FilesystemTool_switch fs params operation p resolvedPath =
     (if operation = Some (JStr ''read'') then
        bindIO (external (FsCall ''readFile'' resolvedPath) (\<lambda>n. readFile fs n resolvedPath)) (\<lambda>content.
        bindIO (external (FsCall ''stat'' resolvedPath) (\<lambda>n. stat fs n resolvedPath)) (\<lambda>(size, mtime).
          returnIO (Some (JObj ([(''content'', JStr content)] @ obj_prop ''path'' p
                                @ [(''absolutePath'', JStr resolvedPath),
                                   (''size'', JNum size), (''modified'', mtime)])))))
      else if operation = Some (JStr ''write'') then
        bindIO (liftE (get_prop params ''content'')) (\<lambda>content.
          case content of
            None \<Rightarrow> throwIO (Error ''Error'' ''Content required for write operation'')
          | Some c \<Rightarrow>
              (let dir = path_dirname fs resolvedPath
               in bindIO (external (FsCall ''mkdir'' dir) (\<lambda>n. mkdir fs n dir)) (\<lambda>_.
                  bindIO (external (FsCall ''writeFile'' resolvedPath)
                            (\<lambda>n. writeFile fs n resolvedPath c)) (\<lambda>_.
                  bindIO (external (FsCall ''stat'' resolvedPath) (\<lambda>n. stat fs n resolvedPath)) (\<lambda>(size, mtime).
                    returnIO (Some (JObj ([(''written'', JBool True)] @ obj_prop ''path'' p
                                          @ [(''absolutePath'', JStr resolvedPath),
                                             (''bytes'', JNum size)]))))))))
      else if operation = Some (JStr ''list'') then
        bindIO (external (FsCall ''readdir'' resolvedPath) (\<lambda>n. readdir fs n resolvedPath)) (\<lambda>entries.
          returnIO (Some (JArr (map (\<lambda>(nm, isDirectory).
                             JObj [(''name'', JStr nm),
                                   (''type'', JStr (if isDirectory then ''directory'' else ''file''))])
                           entries))))
      else if operation = Some (JStr ''exists'') then
        catchIO
          (bindIO (external (FsCall ''access'' resolvedPath) (\<lambda>n. access fs n resolvedPath)) (\<lambda>_.
             returnIO (Some (JObj [(''exists'', JBool True)]))))
          (\<lambda>_. returnIO (Some (JObj [(''exists'', JBool False)])))
      else if operation = Some (JStr ''delete'') then
        bindIO (external (FsCall ''unlink'' resolvedPath) (\<lambda>n. unlink fs n resolvedPath)) (\<lambda>_.
          returnIO (Some (JObj [(''deleted'', JBool True), (''path'', JStr resolvedPath)])))
      else returnIO None)"

definition FilesystemTool_execute ::
  "(nat \<Rightarrow> int) \<Rightarrow> node_fs \<Rightarrow> FilesystemTool \<Rightarrow> json \<Rightarrow> (sys, MCPToolResult) io" where
  "FilesystemTool_execute clk fs this params =
     bindIO (nowIO clk) (\<lambda>startTime.
       catchIO
         (bindIO (liftE (get_prop params ''path'')) (\<lambda>p.
          bindIO (liftE (resolve_checked fs (workingDirectory this) p)) (\<lambda>resolvedPath.
            if \<not> startsWith resolvedPath (workingDirectory this)
            then throwIO (Error ''Error'' ''Path outside working directory'')
            else
              (let ext = path_extname fs resolvedPath
               in bindIO (liftE (get_prop params ''operation'')) (\<lambda>operation.
                    if operation \<noteq> Some (JStr ''list'') \<and> ext \<noteq> []
                       \<and> ext \<notin> set (allowedExtensions this)
                    then throwIO (Error ''Error'' (''File extension '' @ ext @ '' not allowed''))
                    else
                      bindIO (FilesystemTool_switch fs params operation p resolvedPath) (\<lambda>r.
                      bindIO (nowIO clk) (\<lambda>t.
                        returnIO \<lparr> success = True, result = r, error = None,
                                   executionTime = t - startTime \<rparr>)))))))
         (\<lambda>err.
            bindIO (nowIO clk) (\<lambda>t.
              returnIO \<lparr> success = False, result = None, error = Some (error_message err),
                         executionTime = t - startTime \<rparr>)))"

definition FilesystemTool_provider ::
  "(nat \<Rightarrow> int) \<Rightarrow> node_fs \<Rightarrow> FilesystemTool \<Rightarrow> MCPToolProvider" where
  "FilesystemTool_provider clk fs this =
     \<lparr> getSchema = FilesystemTool_getSchema, execute = FilesystemTool_execute clk fs this \<rparr>"

section \<open>Web search tool\<close>

record WebSearchToolConfig =
  config_apiKey :: "string option"
  config_searchEngine :: "string option"

record WebSearchTool =
  apiKey :: "string option"
  searchEngine :: string

definition new_WebSearchTool :: "WebSearchToolConfig \<Rightarrow> WebSearchTool" where
  "new_WebSearchTool config =
     \<lparr> apiKey = config_apiKey config,
       searchEngine = (case config_searchEngine config of
                         None \<Rightarrow> ''duckduckgo''
                       | Some s \<Rightarrow> if s = [] then ''duckduckgo'' else s) \<rparr>"

text \<open>
  The private methods \<open>googleSearch\<close>, \<open>bingSearch\<close> and \<open>duckduckgoSearch\<close> are requests
  to a search service followed by a reshaping of the answer. They are taken by their
  outcome: the array of results that the method returns, or the value that it throws.
\<close>

type_synonym search_methods = "string \<Rightarrow> nat \<Rightarrow> string option \<Rightarrow> jsval \<Rightarrow> json \<Rightarrow> thrown + json list"

definition WebSearchTool_getSchema :: MCPTool where
  "WebSearchTool_getSchema =
     \<lparr> tool_name = ''web_search'',
       tool_description = ''Search the web for information'',
       tool_parameters = JObj
         [(''type'', JStr ''object''),
          (''properties'', JObj
             [(''query'', JObj [(''type'', JStr ''string''), (''description'', JStr ''Search query'')]),
              (''num_results'', JObj [(''type'', JStr ''number''),
                                      (''description'', JStr ''Number of results to return''),
                                      (''default'', JNum 5)])]),
          (''required'', JArr [JStr ''query''])],
       tool_executor = ''web_search'' \<rparr>"

definition WebSearchTool_execute ::
  "(nat \<Rightarrow> int) \<Rightarrow> search_methods \<Rightarrow> WebSearchTool \<Rightarrow> json \<Rightarrow> (sys, MCPToolResult) io" where
  "WebSearchTool_execute clk search this params =
     bindIO (nowIO clk) (\<lambda>startTime.
     bindIO (liftE (get_prop params ''num_results'')) (\<lambda>num_results.
       let numResults = (if truthy num_results then the num_results else JNum 5)
       in catchIO
            (bindIO (liftE (get_prop params ''query'')) (\<lambda>query.
             bindIO
               (if searchEngine this \<in> {''google'', ''bing'', ''duckduckgo''}
                then bindIO (external (WebSearch (searchEngine this) query numResults)
                               (\<lambda>n. search (searchEngine this) n (apiKey this) query numResults))
                       (\<lambda>results. returnIO (Some results))
                else returnIO None) (\<lambda>results.
               case results of
                 None \<Rightarrow> throwIO (Error ''TypeError''
                            (''Cannot read properties of undefined (reading ''
                               @ [CHR 0x27] @ ''length'' @ [CHR 0x27] @ '')''))
               | Some rs \<Rightarrow>
                   bindIO (nowIO clk) (\<lambda>t.
                     returnIO \<lparr> success = True,
                                result = Some (JObj (obj_prop ''query'' query
                                           @ [(''results'', JArr rs),
                                              (''count'', JNum (int (length rs)))])),
                                error = None,
                                executionTime = t - startTime \<rparr>))))
            (\<lambda>err.
               bindIO (nowIO clk) (\<lambda>t.
                 returnIO \<lparr> success = False, result = None, error = Some (error_message err),
                            executionTime = t - startTime \<rparr>))))"

definition WebSearchTool_provider ::
  "(nat \<Rightarrow> int) \<Rightarrow> search_methods \<Rightarrow> WebSearchTool \<Rightarrow> MCPToolProvider" where
  "WebSearchTool_provider clk search this =
     \<lparr> getSchema = WebSearchTool_getSchema, execute = WebSearchTool_execute clk search this \<rparr>"

section \<open>Configuration and tool initialisation\<close>

record FeedbackLoop =
  enabled :: bool
  max_iterations :: int

record ThenConfig =
  then_agent :: string
  feedback_loop :: "FeedbackLoop option"

record Step =
  step_agent :: string

text \<open>
  The workflow object as the engine reads it: the \<open>type\<close> tag and the fields of both
  variants, of which a variant uses its own.
\<close>

record Workflow =
  workflow_type :: string
  steps :: "Step list"
  branches :: "string list"
  then_config :: ThenConfig

record ToolConfig =
  filesystem_working_directory :: "string option"
  filesystem_allowed_extensions :: "string list option"
  web_search_api_key :: "string option"
  web_search_search_engine :: "string option"
  code_execution_timeout :: "int option"
  code_execution_memory_limit :: "int option"

record RootConfig =
  workflow :: Workflow
  tool_config :: "ToolConfig option"

record process =
  process_cwd :: string
  GOOGLE_SEARCH_API_KEY :: "string option"

text \<open>\<open>a || b\<close> on optional strings and numbers.\<close>

definition or_string :: "string option \<Rightarrow> string option \<Rightarrow> string option" where
  "or_string a b = (case a of None \<Rightarrow> b | Some s \<Rightarrow> if s = [] then b else Some s)"

definition or_int :: "int option \<Rightarrow> int \<Rightarrow> int" where
  "or_int a b = (case a of None \<Rightarrow> b | Some n \<Rightarrow> if n = 0 then b else n)"

text \<open>
  A field of \<open>config.tool_config || {}\<close>: \<open>undefined\<close> when the configuration has no
  \<open>tool_config\<close>.
\<close>

definition tool_config_field :: "RootConfig \<Rightarrow> (ToolConfig \<Rightarrow> 'a option) \<Rightarrow> 'a option" where
  "tool_config_field config field =
     (case tool_config config of None \<Rightarrow> None | Some c \<Rightarrow> field c)"

definition initializeMCPTools ::
  "(nat \<Rightarrow> int) \<Rightarrow> node_fs \<Rightarrow> search_methods \<Rightarrow> ivm \<Rightarrow> process \<Rightarrow> RootConfig \<Rightarrow> MCPToolRegistry" where
  "initializeMCPTools clk fs search vm proc config =
     (let registry = \<lparr> tools = Map.empty \<rparr>;
          filesystemTool = new_FilesystemTool (process_cwd proc)
            \<lparr> config_workingDirectory =
                or_string (tool_config_field config filesystem_working_directory)
                  (Some (process_cwd proc)),
              config_allowedExtensions = tool_config_field config filesystem_allowed_extensions \<rparr>;
          registry = register (FilesystemTool_provider clk fs filesystemTool) registry;
          webSearchTool = new_WebSearchTool
            \<lparr> config_apiKey =
                or_string (tool_config_field config web_search_api_key) (GOOGLE_SEARCH_API_KEY proc),
              config_searchEngine =
                or_string (tool_config_field config web_search_search_engine) (Some ''google'') \<rparr>;
          registry = register (WebSearchTool_provider clk search webSearchTool) registry;
          codeExecutionTool = new_CodeExecutionTool
            \<lparr> config_timeout =
                Some (or_int (tool_config_field config code_execution_timeout) 5000),
              config_memory_limit =
                Some (or_int (tool_config_field config code_execution_memory_limit) 16) \<rparr>;
          registry = register (CodeExecutionTool_provider clk vm codeExecutionTool) registry
      in registry)"

section \<open>Parallel workflow\<close>

text \<open>
  The agent registry is taken by its \<open>getAgent\<close>: the agent, or the value thrown for an
  id that is not registered.
\<close>

type_synonym AgentRegistry = "string \<Rightarrow> thrown + Agent"

text \<open>
  \<open>Promise.all(branches.map(async (agentId) => ...))\<close>. Each branch runs at once up to its
  \<open>await\<close>: it looks the agent up, reads the clock, builds its prompt from the context and
  sends its request; the promise is then pending, or already rejected when the lookup
  threw. The pending requests are answered later, in an order that the program does not
  choose; a branch resumes when its request is answered, reads the clock and settles its
  promise. \<open>rejections\<close> lists the rejections in the order they happen.
\<close>

datatype branch_promise =
    Pending Agent int nat LLMRequest
  | Settled "thrown + TimelineEntry"

record join =
  promises :: "branch_promise list"
  rejections :: "thrown list"
  join_world :: world

text \<open>\<open>{ system: prompt.system, user: prompt.user, temperature: 0.2 }\<close>\<close>

definition prompt_request :: "Prompt \<Rightarrow> LLMRequest" where
  "prompt_request prompt =
     \<lparr> req_system = system prompt, req_user = user prompt, req_temperature = Some (2 / 10) \<rparr>"

definition start_branch :: "env \<Rightarrow> AgentRegistry \<Rightarrow> ContextStore \<Rightarrow> join \<Rightarrow> string \<Rightarrow> join" where
  "start_branch e registry context j a =
     (case registry a of
        Inl err \<Rightarrow> j\<lparr>promises := promises j @ [Settled (Inl err)], rejections := rejections j @ [err]\<rparr>
      | Inr agent \<Rightarrow>
          (let w = join_world j;
               started = Date_now (clock e) w;
               w = tick w;
               prompt = buildPrompt agent context;
               req = prompt_request prompt
           in j\<lparr>promises := promises j @ [Pending agent started (length (llm_calls w)) req],
                join_world := w\<lparr>llm_calls := llm_calls w @ [req]\<rparr>\<rparr>))"

text \<open>The answer to a pending request arrives: the branch resumes and its promise settles.\<close>

definition settle ::
  "env \<Rightarrow> Agent \<Rightarrow> int \<Rightarrow> nat \<Rightarrow> LLMRequest \<Rightarrow> thrown list \<times> world
     \<Rightarrow> (thrown + TimelineEntry) \<times> thrown list \<times> world" where
  "settle e agent started n req rw =
     (case rw of (rej, w) \<Rightarrow>
        (case llm e n req of
           Inl err \<Rightarrow> (Inl err, rej @ [err], w)
         | Inr out \<Rightarrow>
             (Inr \<lparr> agentId = agent_id agent, entry_role = role agent, entry_output = out,
                    startedAt = started, endedAt = Date_now (clock e) w \<rparr>,
              rej, tick w)))"

definition complete_branch :: "env \<Rightarrow> join \<Rightarrow> nat \<Rightarrow> join" where
  "complete_branch e j i =
     (if i < length (promises j) then
        (case promises j ! i of
           Pending agent started n req \<Rightarrow>
             (case settle e agent started n req (rejections j, join_world j) of
                (outcome, rej, w) \<Rightarrow>
                  \<lparr> promises = (promises j)[i := Settled outcome], rejections = rej, join_world = w \<rparr>)
         | Settled _ \<Rightarrow> j)
      else j)"

text \<open>The requests still pending are answered in index order.\<close>

fun settle_rest ::
  "env \<Rightarrow> branch_promise list \<Rightarrow> thrown list \<times> world
     \<Rightarrow> (thrown + TimelineEntry) list \<times> thrown list \<times> world" where
  "settle_rest e [] rw = ([], rw)"
| "settle_rest e (Settled outcome # ps) rw =
     (case settle_rest e ps rw of (outs, rw') \<Rightarrow> (outcome # outs, rw'))"
| "settle_rest e (Pending agent started n req # ps) rw =
     (case settle e agent started n req rw of
        (outcome, rw1) \<Rightarrow>
          (case settle_rest e ps rw1 of (outs, rw') \<Rightarrow> (outcome # outs, rw')))"

fun all_values :: "(thrown + 'a) list \<Rightarrow> thrown + 'a list" where
  "all_values [] = Inr []"
| "all_values (Inl err # rs) = Inl err"
| "all_values (Inr v # rs) = (case all_values rs of Inl err \<Rightarrow> Inl err | Inr vs \<Rightarrow> Inr (v # vs))"

text \<open>
  \<open>Promise.all\<close>: rejected with the first rejection that happened, else fulfilled with the
  values in index order.
\<close>

definition Promise_all :: "thrown list \<Rightarrow> (thrown + 'a) list \<Rightarrow> thrown + 'a list" where
  "Promise_all rej outs = (case rej of err # _ \<Rightarrow> Inl err | [] \<Rightarrow> all_values outs)"

text \<open>
  The branch phase. \<open>sched\<close> is the order in which the backend answers, as a list of branch
  indices; an index names its branch's request, an index with no pending request names
  nothing, and the requests that \<open>sched\<close> leaves out are answered after it.
\<close>

definition started_branches ::
  "env \<Rightarrow> AgentRegistry \<Rightarrow> ContextStore \<Rightarrow> string list \<Rightarrow> world \<Rightarrow> join" where
  "started_branches e registry context bs w =
     foldl (start_branch e registry context) \<lparr> promises = [], rejections = [], join_world = w \<rparr> bs"

definition run_branches ::
  "env \<Rightarrow> nat list \<Rightarrow> AgentRegistry \<Rightarrow> ContextStore \<Rightarrow> string list \<Rightarrow> world
     \<Rightarrow> (thrown + TimelineEntry list) \<times> world" where
  "run_branches e sched registry context bs w =
     (let j = started_branches e registry context bs w;
          j = foldl (complete_branch e) j sched
      in case settle_rest e (promises j) (rejections j, join_world j) of
           (outs, rej, w') \<Rightarrow> (Promise_all rej outs, w'))"

definition merge_result :: "ContextStore \<Rightarrow> TimelineEntry \<Rightarrow> ContextStore" where
  "merge_result context r =
     context\<lparr>outputs := (outputs context)(agentId r \<mapsto> entry_output r),
             timeline := timeline context @ [r]\<rparr>"

definition runParallelWorkflow ::
  "env \<Rightarrow> nat list \<Rightarrow> string list \<Rightarrow> ThenConfig \<Rightarrow> AgentRegistry \<Rightarrow> ContextStore \<Rightarrow> world
     \<Rightarrow> (thrown + unit) \<times> ContextStore \<times> world" where
  "runParallelWorkflow e sched bs then_cfg registry context w =
     (case run_branches e sched registry context bs w of
        (Inl err, w1) \<Rightarrow> (Inl err, context, w1)
      | (Inr branchResults, w1) \<Rightarrow>
          (let context = foldl merge_result context branchResults
           in case registry (then_agent then_cfg) of
                Inl err \<Rightarrow> (Inl err, context, w1)
              | Inr finalAgent \<Rightarrow>
                  (let started = Date_now (clock e) w1;
                       w2 = tick w1;
                       finalPrompt = buildPrompt finalAgent context
                   in case generate e (prompt_request finalPrompt) w2 of
                        (Inl err, w3) \<Rightarrow> (Inl err, context, w3)
                      | (Inr finalOutput, w3) \<Rightarrow>
                          (Inr (),
                           merge_result context
                             \<lparr> agentId = agent_id finalAgent, entry_role = role finalAgent,
                               entry_output = finalOutput, startedAt = started,
                               endedAt = Date_now (clock e) w3 \<rparr>,
                           tick w3))))"

section \<open>Workflow engine\<close>

text \<open>
  \<open>runSequentialWorkflow\<close> and \<open>runIterativeParallelWorkflow\<close> are parameters of the engine.
\<close>

record strategies =
  runSequentialWorkflow ::
    "Step list \<Rightarrow> AgentRegistry \<Rightarrow> MCPToolRegistry option \<Rightarrow> ContextStore \<Rightarrow> world
       \<Rightarrow> (thrown + unit) \<times> ContextStore \<times> world"
  runIterativeParallelWorkflow ::
    "string list \<Rightarrow> string \<Rightarrow> FeedbackLoop \<Rightarrow> AgentRegistry \<Rightarrow> MCPToolRegistry option
       \<Rightarrow> ContextStore \<Rightarrow> world \<Rightarrow> (thrown + unit) \<times> ContextStore \<times> world"

definition runWorkflow ::
  "strategies \<Rightarrow> env \<Rightarrow> nat list \<Rightarrow> RootConfig \<Rightarrow> AgentRegistry \<Rightarrow> MCPToolRegistry option
     \<Rightarrow> ContextStore \<Rightarrow> world \<Rightarrow> (thrown + unit) \<times> ContextStore \<times> world" where
  "runWorkflow strat e sched config registry mcpRegistry context w =
     (case (if workflow_type (workflow config) = ''sequential''
            then runSequentialWorkflow strat (steps (workflow config)) registry mcpRegistry context w
            else (Inr (), context, w)) of
        (Inl err, context, w) \<Rightarrow> (Inl err, context, w)
      | (Inr _, context, w) \<Rightarrow>
          (if workflow_type (workflow config) = ''parallel'' then
             (let feedbackLoop = feedback_loop (then_config (workflow config))
              in case feedbackLoop of
                   Some fb \<Rightarrow>
                     if enabled fb
                     then runIterativeParallelWorkflow strat (branches (workflow config))
                            (then_agent (then_config (workflow config))) fb registry mcpRegistry context w
                     else runParallelWorkflow e sched (branches (workflow config))
                            (then_config (workflow config)) registry context w
                 | None \<Rightarrow>
                     runParallelWorkflow e sched (branches (workflow config))
                       (then_config (workflow config)) registry context w)
           else (Inr (), context, w)))"

section \<open>Notions of the statements\<close>

text \<open>The request that a round of the loop sends.\<close>

definition round_request :: "env \<Rightarrow> ToolAwareLLMParams \<Rightarrow> string \<Rightarrow> LLMRequest" where
  "round_request e params currentPrompt =
     \<lparr> req_system = buildToolPrompt e (system_prompt params)
                      (case llm_tools params of None \<Rightarrow> [] | Some ts \<Rightarrow> ts),
       req_user = currentPrompt, req_temperature = temperature params \<rparr>"

text \<open>
  A response that \<open>parseToolCall\<close> answers with \<open>null\<close>: it holds no tool-call block, or
  the trimmed content of its block is rejected by \<open>JSON.parse\<close> or is the JSON value \<open>null\<close>.
\<close>

definition final_response :: "env \<Rightarrow> string \<Rightarrow> bool" where
  "final_response e response =
     (case match_tool_call response of
        None \<Rightarrow> True
      | Some m \<Rightarrow> (case JSON_parse e (trim m) of Inl err \<Rightarrow> True | Inr v \<Rightarrow> v = JNull))"

text \<open>The invariant of a tool result: a failure carries no result and carries an error.\<close>

definition ToolResult_invariant :: "MCPToolResult \<Rightarrow> bool" where
  "ToolResult_invariant r = (\<not> success r \<longrightarrow> result r = None \<and> error r \<noteq> None)"

definition provider_invariant :: "MCPToolProvider \<Rightarrow> bool" where
  "provider_invariant tool =
     (\<forall>params s r s'. execute tool params s = (Inr r, s') \<longrightarrow> ToolResult_invariant r)"

text \<open>The result of \<open>executePython\<close>.\<close>

definition python_stub :: MCPToolResult where
  "python_stub = \<lparr> success = False, result = None,
       error = Some ''Python execution not yet implemented. Install python-shell package and configure Python runtime.'',
       executionTime = 0 \<rparr>"

text \<open>
  The run of the submitted code in a request that \<open>execute\<close> of the code execution tool
  starts in the state \<open>s\<close>: the isolate's answer to compiling and running the wrapped code
  under the tool's timeout. It is the third call that the request makes to the library,
  after the creation of the isolate and the preparation of the context.
\<close>

definition script_run ::
  "ivm \<Rightarrow> CodeExecutionTool \<Rightarrow> sys \<Rightarrow> string \<Rightarrow> thrown + (jsval \<times> string list)" where
  "script_run vm this s code =
     run_in_context vm (length (io_trace s) + 2) (wrappedCode code) (timeout this)"

text \<open>
  A branch promise that is the agent's and is not rejected, and a timeline entry that is
  the agent's.
\<close>

definition belongs_to :: "Agent \<Rightarrow> branch_promise \<Rightarrow> bool" where
  "belongs_to ag p =
     (case p of
        Pending a t n req \<Rightarrow> a = ag
      | Settled (Inr r) \<Rightarrow> agentId r = agent_id ag \<and> entry_role r = role ag
      | Settled (Inl err) \<Rightarrow> False)"

definition entry_of :: "Agent \<Rightarrow> TimelineEntry \<Rightarrow> bool" where
  "entry_of ag r = (agentId r = agent_id ag \<and> entry_role r = role ag)"

section \<open>Concrete instances\<close>

text \<open>
  Instances of the oracles and inputs on which the theorems below are run. The parser
  answers the three texts that the runs hand to \<open>JSON.parse\<close> as \<open>JSON.parse\<close> does: two
  objects, and \<open>not json\<close>, which is rejected; it is never asked about another text.
\<close>

definition JSON_parse_fragment :: "string \<Rightarrow> thrown + json" where
  \<open>JSON_parse_fragment s =
     (if s = ''{"tool":"echo","parameters":{}}''
      then Inr (JObj [(''tool'', JStr ''echo''), (''parameters'', JObj [])])
      else if s = ''{"parameters":{}}'' then Inr (JObj [(''parameters'', JObj [])])
      else Inl (Error ''SyntaxError'' ''Unexpected token''))\<close>

definition backend_env :: "(nat \<Rightarrow> LLMRequest \<Rightarrow> thrown + string) \<Rightarrow> env" where
  \<open>backend_env backend =
     \<lparr> clock = (\<lambda>n. 1000 + int n),
       llm = backend,
       JSON_parse = JSON_parse_fragment,
       JSON_stringify = (\<lambda>j. ''{}''),
       JSON_stringify_indent2 = (\<lambda>j. ''{}'') \<rparr>\<close>

definition always_calling :: env where
  \<open>always_calling =
     backend_env (\<lambda>n req. Inr ''I will look.<tool_call>{"tool":"echo","parameters":{}}</tool_call>'')\<close>

definition empty_registry :: MCPToolRegistry where
  "empty_registry = \<lparr> tools = Map.empty \<rparr>"

definition world0 :: world where
  "world0 = \<lparr> ticks = 0, io_trace = [], llm_calls = [], tool_calls = [] \<rparr>"

definition params2 :: ToolAwareLLMParams where
  "params2 = \<lparr> system_prompt = ''sys'', user_prompt = ''hello'', temperature = None,
               llm_tools = None, maxToolCalls = Some 2 \<rparr>"

definition zero_bound :: ToolAwareLLMParams where
  "zero_bound = \<lparr> system_prompt = ''sys'', user_prompt = ''hello'', temperature = None,
                 llm_tools = None, maxToolCalls = Some 0 \<rparr>"

definition answering :: "string \<Rightarrow> env" where
  "answering response = backend_env (\<lambda>n req. Inr response)"

definition missing_tool_field :: env where
  \<open>missing_tool_field =
     backend_env (\<lambda>n req. if n = 0 then Inr ''<tool_call>{"parameters":{}}</tool_call>''
                            else Inr ''done'')\<close>

text \<open>
  The prompt of the round that follows a call of the tool \<open>undefined\<close> which the registry
  did not find, under the \<open>JSON.stringify\<close> of \<open>backend_env\<close>.
\<close>

definition not_found_prompt :: string where
  "not_found_prompt =
     ''hello\<newline>\<newline><tool_result>\<newline>Tool: undefined\<newline>Parameters: {}\<newline>Result: {}\<newline></tool_result>\<newline>\<newline>Based on this tool result, provide your final response (without using more tools unless necessary).''"

text \<open>A backend whose block names the tool by an object with an own \<open>toString\<close>.\<close>

definition object_named :: env where
  \<open>object_named =
     \<lparr> clock = (\<lambda>n. 1000 + int n),
       llm = (\<lambda>n req. Inr ''<tool_call>{"tool":{"toString":1}}</tool_call>''),
       JSON_parse = (\<lambda>s. if s = ''{"tool":{"toString":1}}''
                          then Inr (JObj [(''tool'', JObj [(''toString'', JNum 1)])])
                          else JSON_parse_fragment s),
       JSON_stringify = (\<lambda>j. ''{}''),
       JSON_stringify_indent2 = (\<lambda>j. ''{}'') \<rparr>\<close>

definition throwing_provider :: MCPToolProvider where
  "throwing_provider =
     \<lparr> getSchema = \<lparr> tool_name = ''boom'', tool_description = ''always throws'',
                      tool_parameters = JObj [], tool_executor = ''custom'' \<rparr>,
       execute = (\<lambda>params. throwIO (Error ''Error'' ''boom'')) \<rparr>"

definition refusing_provider :: MCPToolProvider where
  "refusing_provider =
     \<lparr> getSchema = \<lparr> tool_name = ''deny'', tool_description = ''always reports a failure'',
                      tool_parameters = JObj [], tool_executor = ''custom'' \<rparr>,
       execute = (\<lambda>params. returnIO \<lparr> success = False, result = None, error = Some ''denied'',
                                        executionTime = 3 \<rparr>) \<rparr>"

definition two_tools :: MCPToolRegistry where
  "two_tools = register refusing_provider (register throwing_provider empty_registry)"

definition clock0 :: "nat \<Rightarrow> int" where
  "clock0 n = 1000 + 7 * int n"

definition timing_out_vm :: ivm where
  "timing_out_vm =
     \<lparr> new_Isolate = (\<lambda>n limit. Inr ()),
       prepare_context = (\<lambda>n. Inr ()),
       run_in_context = (\<lambda>n code t. Inl (Error ''Error'' ''Script execution timed out.'')),
       getHeapStatisticsSync = (\<lambda>n. Inr 0),
       dispose = (\<lambda>n. Inr ()) \<rparr>"

definition working_vm :: ivm where
  "working_vm =
     \<lparr> new_Isolate = (\<lambda>n limit. Inr ()),
       prepare_context = (\<lambda>n. Inr ()),
       run_in_context = (\<lambda>n code t. Inr (Some (JNum 42), [''hi''])),
       getHeapStatisticsSync = (\<lambda>n. Inr 1572864),
       dispose = (\<lambda>n. Inr ()) \<rparr>"

definition offline_fs :: node_fs where
  "offline_fs =
     \<lparr> path_resolve = (\<lambda>dir p. if p = ''../etc/passwd'' then ''/etc/passwd'' else dir @ ''/'' @ p),
       path_extname = (\<lambda>p. []),
       path_dirname = (\<lambda>p. p),
       readFile = (\<lambda>n p. Inl (Error ''Error'' ''ENOENT'')),
       stat = (\<lambda>n p. Inl (Error ''Error'' ''ENOENT'')),
       mkdir = (\<lambda>n p. Inl (Error ''Error'' ''EACCES'')),
       writeFile = (\<lambda>n p c. Inl (Error ''Error'' ''EACCES'')),
       readdir = (\<lambda>n p. Inl (Error ''Error'' ''ENOENT'')),
       access = (\<lambda>n p. Inl (Error ''Error'' ''ENOENT'')),
       unlink = (\<lambda>n p. Inl (Error ''Error'' ''ENOENT'')) \<rparr>"

definition offline_search :: search_methods where
  "offline_search engine n key query num = Inl (Error ''Error'' ''Network Error'')"

definition process0 :: process where
  "process0 = \<lparr> process_cwd = ''/work'', GOOGLE_SEARCH_API_KEY = None \<rparr>"

definition no_tool_config :: RootConfig where
  "no_tool_config =
     \<lparr> workflow = \<lparr> workflow_type = ''sequential'', steps = [], branches = [],
                      then_config = \<lparr> then_agent = [], feedback_loop = None \<rparr> \<rparr>,
       tool_config = None \<rparr>"

definition sys0 :: sys where
  "sys0 = \<lparr> ticks = 0, io_trace = [] \<rparr>"

definition js_request :: json where
  "js_request = JObj [(''language'', JStr ''javascript''), (''code'', JStr ''return 42'')]"

definition python_request :: json where
  "python_request = JObj [(''language'', JStr ''python''), (''code'', JStr ''print(42)'')]"

definition tool0 :: CodeExecutionTool where
  "tool0 = new_CodeExecutionTool \<lparr> config_timeout = None, config_memory_limit = None \<rparr>"

definition initialized_tools :: MCPToolRegistry where
  "initialized_tools =
     initializeMCPTools clock0 offline_fs offline_search timing_out_vm process0 no_tool_config"

definition agent_named :: "string \<Rightarrow> Agent" where
  "agent_named a = \<lparr> agent_id = a, role = ''role of '' @ a, goal = ''goal of '' @ a \<rparr>"

definition four_agents :: AgentRegistry where
  "four_agents a =
     (if a \<in> set [''A'', ''B'', ''C'', ''D''] then Inr (agent_named a)
      else Inl (Error ''Error'' (''Agent not found: '' @ a)))"

definition context0 :: ContextStore where
  "context0 = \<lparr> userInput = ''question'', outputs = Map.empty, timeline = [] \<rparr>"

definition then_D :: ThenConfig where
  "then_D = \<lparr> then_agent = ''D'', feedback_loop = None \<rparr>"

definition second_call_fails :: env where
  "second_call_fails =
     backend_env (\<lambda>n req. if n = 1 then Inl (Error ''Error'' ''503 Service Unavailable'')
                            else Inr ''ok'')"

definition refusing_strategies :: strategies where
  "refusing_strategies =
     \<lparr> runSequentialWorkflow =
         (\<lambda>steps registry mcpRegistry ctx w. (Inl (Error ''Error'' ''sequential strategy run''), ctx, w)),
       runIterativeParallelWorkflow =
         (\<lambda>bs a fb registry mcpRegistry ctx w. (Inl (Error ''Error'' ''iterative strategy run''), ctx, w)) \<rparr>"

definition config_of_type :: "string \<Rightarrow> RootConfig" where
  "config_of_type t =
     \<lparr> workflow = \<lparr> workflow_type = t, steps = [\<lparr> step_agent = ''A'' \<rparr>],
                      branches = [''A'', ''B'', ''C''], then_config = then_D \<rparr>,
       tool_config = None \<rparr>"

definition record_A :: TimelineEntry where
  "record_A = \<lparr> agentId = ''A'', entry_role = ''Researcher'', entry_output = ''Found it.'',
                startedAt = 1000, endedAt = 1001 \<rparr>"

definition record_newline :: TimelineEntry where
  "record_newline = \<lparr> agentId = ''A'', entry_role = ''Researcher'', entry_output = ''done\<newline>'',
                      startedAt = 1000, endedAt = 1001 \<rparr>"

section \<open>The tool-calling loop: lemmas\<close>

declare generateWithTools_loop.simps [simp del]

declare decimal.simps [simp del]

lemma js_String_string: "js_String (Some (JStr s)) = Inr s"
  by (simp add: js_String_def)

lemma Number_toString_digit:
  "Number_toString 2 = ''2''" "Number_toString 5 = ''5''"
  by (simp_all add: Number_toString_def isSafeInteger_def MAX_SAFE_INTEGER_def decimal.simps
        digit_char_def)

lemma executeTool_returns:
  "\<exists>r w'. executeTool reg (Some (JStr s)) params w = (Inr r, w')
      \<and> llm_calls w' = llm_calls w
      \<and> tool_calls w' = tool_calls w @ [(Some (JStr s), params)]"
  by (auto simp: executeTool_def bindIO_def catchIO_def returnIO_def liftE_def note_dispatch_def
        in_world_def js_String_string
      split: option.splits prod.splits sum.splits)

lemma loop_exhausts:
  assumes always: "\<And>n req. \<exists>resp tc name. llm e n req = Inr resp
                      \<and> parseToolCall e resp = Inr (Some tc) \<and> parsed_toolName tc = Some (JStr name)"
  shows "\<exists>tcs' w'. generateWithTools_loop e reg params iteration currentPrompt tcs w
            = ((Inl (Error ''Error'' (''Max tool call iterations (''
                   @ Number_toString (maxIterations params) @ '') reached'')), tcs'), w')
         \<and> length tcs' = length tcs + nat (maxIterations params - iteration)
         \<and> length (llm_calls w') = length (llm_calls w) + nat (maxIterations params - iteration)
         \<and> length (tool_calls w') = length (tool_calls w) + nat (maxIterations params - iteration)"
proof (induction "nat (maxIterations params - iteration)" arbitrary: iteration currentPrompt tcs w)
  case 0
  then have "\<not> iteration < maxIterations params" by simp
  then show ?case by (simp add: generateWithTools_loop.simps[of e reg params iteration])
next
  case (Suc k)
  then have lt: "iteration < maxIterations params"
    and k: "k = nat (maxIterations params - (iteration + 1))"
    by linarith+
  define req where "req = round_request e params currentPrompt"
  obtain resp tc name where resp: "llm e (length (llm_calls w)) req = Inr resp"
      "parseToolCall e resp = Inr (Some tc)" "parsed_toolName tc = Some (JStr name)"
    using always by blast
  define w1 where "w1 = w\<lparr>llm_calls := llm_calls w @ [req]\<rparr>"
  obtain r w2 where ex:
      "executeTool reg (Some (JStr name)) (parsed_parameters tc) w1 = (Inr r, w2)"
      "llm_calls w2 = llm_calls w1"
      "tool_calls w2 = tool_calls w1 @ [(Some (JStr name), parsed_parameters tc)]"
    using executeTool_returns by blast
  define tcs1 where
    "tcs1 = tcs @ [\<lparr> toolName = parsed_toolName tc, parameters = parsed_parameters tc,
                     timestamp = Date_now (clock e) w2 \<rparr>]"
  obtain p where p: "buildToolResultPrompt e currentPrompt tc r = Inr p"
    using resp(3) by (simp add: buildToolResultPrompt_def bindE_def js_String_string)
  have step: "generateWithTools_loop e reg params iteration currentPrompt tcs w
     = generateWithTools_loop e reg params (iteration + 1) p tcs1 (tick w2)"
    using lt resp ex(1) p
    by (subst generateWithTools_loop.simps)
       (simp add: generate_def req_def round_request_def w1_def tcs1_def Let_def js_String_string)
  from Suc.hyps(1)[OF k, of p tcs1 "tick w2"]
  show ?case using lt ex(2,3) unfolding step
    by (auto simp: tcs1_def w1_def tick_def)
qed

lemma loop_final:
  assumes "iteration < maxIterations params"
      and "llm e (length (llm_calls w)) (round_request e params currentPrompt) = Inr response"
      and "parseToolCall e response = Inr None"
  shows "generateWithTools_loop e reg params iteration currentPrompt tcs w
           = ((Inr response, tcs), w\<lparr>llm_calls := llm_calls w @ [round_request e params currentPrompt]\<rparr>)"
  using assms
  by (subst generateWithTools_loop.simps) (simp add: generate_def round_request_def Let_def)

lemma loop_params_cong:
  assumes "maxIterations p = maxIterations q" "system_prompt p = system_prompt q"
          "llm_tools p = llm_tools q" "temperature p = temperature q"
  shows "generateWithTools_loop e reg p iteration currentPrompt tcs w
           = generateWithTools_loop e reg q iteration currentPrompt tcs w"
proof (induction "nat (maxIterations p - iteration)" arbitrary: iteration currentPrompt tcs w)
  case 0
  then show ?case using assms
    by (simp add: generateWithTools_loop.simps[of e reg _ iteration])
next
  case (Suc k)
  then have k: "k = nat (maxIterations p - (iteration + 1))" by linarith
  show ?case
    using assms Suc.hyps(1)[OF k]
    by (simp add: generateWithTools_loop.simps[of e reg _ iteration] Let_def
             split: prod.splits sum.splits option.splits)
qed

lemma always_calling_parses:
  \<open>parseToolCall always_calling ''I will look.<tool_call>{"tool":"echo","parameters":{}}</tool_call>''
     = Inr (Some \<lparr>parsed_toolName = Some (JStr ''echo''), parsed_parameters = JObj []\<rparr>)\<close>
  by (simp add: parseToolCall_def match_tool_call_def startsWith_def trim_def trim_end_def is_ws_def
       always_calling_def backend_env_def JSON_parse_fragment_def try_catch_def bindE_def
       get_prop_def truthy_def)

lemma always_calling_named:
  "\<exists>resp tc name. llm always_calling n req = Inr resp
      \<and> parseToolCall always_calling resp = Inr (Some tc) \<and> parsed_toolName tc = Some (JStr name)"
  using always_calling_parses by (simp add: always_calling_def backend_env_def)

text \<open>
  The conversions of the tool name, at the values that are not strings. A name that is an
  object with an own \<open>toString\<close> makes \<open>executeTool\<close> throw on entry, before anything is
  noted; in the loop such a name is met by the conversion that precedes the dispatch, so
  the loop throws in that round and the registry is not reached.
\<close>

lemma executeTool_unconvertible_name:
  "executeTool reg (Some (JObj [(''toString'', JNum 1)])) params w
     = (Inl (Error ''TypeError'' ''Cannot convert object to primitive value''), w)"
  by (simp add: executeTool_def tools_get_def bindIO_def liftE_def js_String_def)

lemma loop_unconvertible_name:
  "generateWithTools object_named empty_registry params2 world0
     = (Inl (Error ''TypeError'' ''Cannot convert object to primitive value''),
        world0\<lparr>llm_calls := [\<lparr> req_system = ''sys'', req_user = ''hello'', req_temperature = None \<rparr>]\<rparr>)"
  apply (simp add: generateWithTools_def params2_def world0_def)
  apply (subst generateWithTools_loop.simps)
  apply (simp add: maxIterations_def generate_def object_named_def
       buildToolPrompt_def parseToolCall_def match_tool_call_def startsWith_def trim_def trim_end_def
       is_ws_def try_catch_def bindE_def get_prop_def truthy_def js_String_def Let_def)
  done

section \<open>The tool-calling loop: round bound\<close>

text \<open>
  Claim C10. When \<open>maxToolCalls\<close> is absent or 0, the round bound is the default 5: the
  bound \<open>maxIterations\<close> is 5, and \<open>generateWithTools\<close> behaves in every world exactly as it
  does with \<open>maxToolCalls = 5\<close>, so a bound of zero rounds cannot be configured.
\<close>

theorem maxToolCalls_falsy_is_5:
  "maxIterations (params\<lparr>maxToolCalls := None\<rparr>) = 5
   \<and> maxIterations (params\<lparr>maxToolCalls := Some 0\<rparr>) = 5
   \<and> generateWithTools e reg (params\<lparr>maxToolCalls := None\<rparr>) w
       = generateWithTools e reg (params\<lparr>maxToolCalls := Some 5\<rparr>) w
   \<and> generateWithTools e reg (params\<lparr>maxToolCalls := Some 0\<rparr>) w
       = generateWithTools e reg (params\<lparr>maxToolCalls := Some 5\<rparr>) w"
proof -
  have a: "generateWithTools_loop e reg (params\<lparr>maxToolCalls := None\<rparr>) 0 (user_prompt params) [] w
         = generateWithTools_loop e reg (params\<lparr>maxToolCalls := Some 5\<rparr>) 0 (user_prompt params) [] w"
    by (rule loop_params_cong) (simp_all add: maxIterations_def)
  have b: "generateWithTools_loop e reg (params\<lparr>maxToolCalls := Some 0\<rparr>) 0 (user_prompt params) [] w
         = generateWithTools_loop e reg (params\<lparr>maxToolCalls := Some 5\<rparr>) 0 (user_prompt params) [] w"
    by (rule loop_params_cong) (simp_all add: maxIterations_def)
  show ?thesis using a b by (simp add: generateWithTools_def maxIterations_def)
qed

text \<open>
  Claim C3, as the code has it. The backend answers every request with a well-formed
  tool-call block: one that \<open>parseToolCall\<close> accepts and whose \<open>tool\<close> is a string. The
  bound in force is \<open>maxToolCalls\<close> when that is a number other than 0, and 5 when it is
  absent or 0; it is a safe integer. Then \<open>generateWithTools\<close> throws the error
  \<open>Max tool call iterations (n) reached\<close>, \<open>n\<close> the bound in force, after exactly as many
  rounds as the bound in force (none when it is negative): that many backend calls, that
  many dispatched tool calls, and an audit list \<open>toolCalls\<close> of that length when the loop
  is left, not one more. So for a positive \<open>maxToolCalls = k\<close> these are \<open>k\<close> rounds, \<open>k\<close>
  backend calls, \<open>k\<close> dispatches and \<open>k\<close> audit entries, and for \<open>maxToolCalls\<close> absent or 0
  they are 5 of each.
\<close>

theorem tool_loop_exhaustion:
  assumes "\<forall>n req. \<exists>resp tc name. llm e n req = Inr resp
              \<and> parseToolCall e resp = Inr (Some tc) \<and> parsed_toolName tc = Some (JStr name)"
      and "isSafeInteger (maxIterations params)"
  shows "\<exists>tcs w'.
           generateWithTools_loop e reg params 0 (user_prompt params) [] w
             = ((Inl (Error ''Error'' (''Max tool call iterations (''
                    @ Number_toString (maxIterations params) @ '') reached'')), tcs), w')
         \<and> generateWithTools e reg params w
             = (Inl (Error ''Error'' (''Max tool call iterations (''
                    @ Number_toString (maxIterations params) @ '') reached'')), w')
         \<and> length tcs = nat (maxIterations params)
         \<and> length (llm_calls w') = length (llm_calls w) + nat (maxIterations params)
         \<and> length (tool_calls w') = length (tool_calls w) + nat (maxIterations params)
         \<and> (\<forall>k. maxToolCalls params = Some (int k) \<and> 0 < k \<longrightarrow>
                maxIterations params = int k
              \<and> length tcs = k
              \<and> length (llm_calls w') = length (llm_calls w) + k
              \<and> length (tool_calls w') = length (tool_calls w) + k)
         \<and> (maxToolCalls params = None \<or> maxToolCalls params = Some 0 \<longrightarrow>
                maxIterations params = 5
              \<and> length tcs = 5
              \<and> length (llm_calls w') = length (llm_calls w) + 5
              \<and> length (tool_calls w') = length (tool_calls w) + 5)"
proof -
  from assms(1) have "\<And>n req. \<exists>resp tc name. llm e n req = Inr resp
       \<and> parseToolCall e resp = Inr (Some tc) \<and> parsed_toolName tc = Some (JStr name)"
    by blast
  from loop_exhausts[OF this, of reg params 0 "user_prompt params" "[]" w]
  show ?thesis by (auto simp: generateWithTools_def maxIterations_def)
qed

theorem tool_loop_exhaustion_witness:
  "(\<forall>n req. \<exists>resp tc name. llm always_calling n req = Inr resp
                \<and> parseToolCall always_calling resp = Inr (Some tc)
                \<and> parsed_toolName tc = Some (JStr name))
   \<and> isSafeInteger (maxIterations params2)
   \<and> maxToolCalls params2 = Some 2
   \<and> (\<exists>tcs w'. generateWithTools_loop always_calling empty_registry params2 0 ''hello'' [] world0
                  = ((Inl (Error ''Error'' ''Max tool call iterations (2) reached''), tcs), w')
              \<and> generateWithTools always_calling empty_registry params2 world0
                  = (Inl (Error ''Error'' ''Max tool call iterations (2) reached''), w')
              \<and> length tcs = 2 \<and> length (llm_calls w') = 2 \<and> length (tool_calls w') = 2)"
proof -
  have h: "\<forall>n req. \<exists>resp tc name. llm always_calling n req = Inr resp
                \<and> parseToolCall always_calling resp = Inr (Some tc)
                \<and> parsed_toolName tc = Some (JStr name)"
    using always_calling_named by blast
  have m: "maxIterations params2 = 2" by (simp add: maxIterations_def params2_def)
  have i: "isSafeInteger (maxIterations params2)"
    by (simp add: m isSafeInteger_def MAX_SAFE_INTEGER_def)
  have k: "maxToolCalls params2 = Some 2" by (simp add: params2_def)
  have s: "Number_toString 2 = ''2''" by (rule Number_toString_digit)
  have u: "user_prompt params2 = ''hello''" by (simp add: params2_def)
  have l: "llm_calls world0 = []" "tool_calls world0 = []" by (simp_all add: world0_def)
  from tool_loop_exhaustion[OF h i, of empty_registry world0]
  have "\<exists>tcs w'. generateWithTools_loop always_calling empty_registry params2 0 ''hello'' [] world0
                  = ((Inl (Error ''Error'' ''Max tool call iterations (2) reached''), tcs), w')
              \<and> generateWithTools always_calling empty_registry params2 world0
                  = (Inl (Error ''Error'' ''Max tool call iterations (2) reached''), w')
              \<and> length tcs = 2 \<and> length (llm_calls w') = 2 \<and> length (tool_calls w') = 2"
    unfolding m s u l by (auto simp: numeral_2_eq_2)
  with h i k show ?thesis by blast
qed

text \<open>
  Claim C3 as stated fails at \<open>maxToolCalls = 0\<close>. The backend answers every request with
  the same well-formed tool-call block. The failure does not come after 0 rounds: five
  rounds run, with five backend calls and five dispatched tool calls, the audit list has
  five entries when the loop is left, and the error names the bound 5.
\<close>

theorem zero_bound_counterexample:
  "maxToolCalls zero_bound = Some 0
   \<and> fst (generateWithTools always_calling empty_registry zero_bound world0)
       = Inl (Error ''Error'' ''Max tool call iterations (5) reached'')
   \<and> length (llm_calls (snd (generateWithTools always_calling empty_registry zero_bound world0))) = 5
   \<and> length (tool_calls (snd (generateWithTools always_calling empty_registry zero_bound world0))) = 5
   \<and> length (snd (fst (generateWithTools_loop always_calling empty_registry zero_bound 0
                          ''hello'' [] world0))) = 5"
proof -
  have m: "maxIterations zero_bound = 5" by (simp add: maxIterations_def zero_bound_def)
  have s: "Number_toString 5 = ''5''" by (rule Number_toString_digit)
  have l: "llm_calls world0 = []" "tool_calls world0 = []" by (simp_all add: world0_def)
  have u: "user_prompt zero_bound = ''hello''" by (simp add: zero_bound_def)
  from loop_exhausts[of always_calling empty_registry zero_bound 0 "''hello''" "[]" world0]
       always_calling_named
  obtain tcs w' where
    "generateWithTools_loop always_calling empty_registry zero_bound 0 ''hello'' [] world0
       = ((Inl (Error ''Error'' ''Max tool call iterations (5) reached''), tcs), w')"
    "length tcs = 5" "length (llm_calls w') = 5" "length (tool_calls w') = 5"
    unfolding m s l by auto
  then show ?thesis
    by (simp add: generateWithTools_def u zero_bound_def)
qed

section \<open>The tool-calling loop: final answers\<close>

lemma final_response_parse: "final_response e response \<Longrightarrow> parseToolCall e response = Inr None"
  by (auto simp: final_response_def parseToolCall_def try_catch_def bindE_def get_prop_def
           split: option.splits sum.splits)

text \<open>
  Claim C4, as the code has it. In a round of \<open>generateWithTools\<close> (entered below the
  bound), a response that holds no tool-call block, or whose block \<open>JSON.parse\<close> rejects
  or reads as \<open>null\<close>, is the final answer: the loop returns that text with the audit list
  as accumulated, after the one backend call of the round and with no tool dispatched
  (the world changes by that request only). In particular, under a positive bound, a
  backend whose first response is of that kind makes \<open>generateWithTools\<close> return after one
  round with an empty audit list.
\<close>

theorem final_answer_round:
  "(iteration < maxIterations params
      \<and> llm e (length (llm_calls w)) (round_request e params currentPrompt) = Inr response
      \<and> final_response e response
    \<longrightarrow> generateWithTools_loop e reg params iteration currentPrompt tcs w
          = ((Inr response, tcs),
             w\<lparr>llm_calls := llm_calls w @ [round_request e params currentPrompt]\<rparr>))
   \<and> (0 < maxIterations params
      \<and> llm e (length (llm_calls w)) (round_request e params (user_prompt params)) = Inr response
      \<and> final_response e response
    \<longrightarrow> generateWithTools e reg params w
          = (Inr \<lparr> final_output = response, toolCalls = [] \<rparr>,
             w\<lparr>llm_calls := llm_calls w @ [round_request e params (user_prompt params)]\<rparr>))"
  using loop_final[of iteration params e w currentPrompt response reg tcs]
        loop_final[of 0 params e w "user_prompt params" response reg "[]"]
        final_response_parse[of e response]
  by (auto simp: generateWithTools_def)

theorem final_answer_round_witness:
  "generateWithTools (answering ''The answer is 4.'') empty_registry params2 world0
     = (Inr \<lparr> final_output = ''The answer is 4.'', toolCalls = [] \<rparr>,
        world0\<lparr>llm_calls := [\<lparr> req_system = ''sys'', req_user = ''hello'', req_temperature = None \<rparr>]\<rparr>)
   \<and> generateWithTools_loop (answering ''<tool_call>not json</tool_call>'') empty_registry params2 1
         ''again'' [] world0
     = ((Inr ''<tool_call>not json</tool_call>'', []),
        world0\<lparr>llm_calls := [\<lparr> req_system = ''sys'', req_user = ''again'', req_temperature = None \<rparr>]\<rparr>)"
proof -
  have m: "maxIterations params2 = 2" by (simp add: maxIterations_def params2_def)
  have r: "round_request e params2 p = \<lparr> req_system = ''sys'', req_user = p, req_temperature = None \<rparr>"
    for e p
    by (simp add: round_request_def params2_def buildToolPrompt_def)
  have u: "user_prompt params2 = ''hello''" by (simp add: params2_def)
  have l: "llm (answering x) n req = Inr x" for x n req
    by (simp add: answering_def backend_env_def)
  have w: "llm_calls world0 = []" by (simp add: world0_def)
  have a: "final_response (answering ''The answer is 4.'') ''The answer is 4.''"
    by (simp add: final_response_def match_tool_call_def startsWith_def)
  have b: "final_response (answering ''<tool_call>not json</tool_call>'')
             ''<tool_call>not json</tool_call>''"
    by (simp add: final_response_def match_tool_call_def startsWith_def answering_def backend_env_def
          JSON_parse_fragment_def trim_def trim_end_def is_ws_def)
  show ?thesis
    using final_answer_round[of 0 params2 "answering ''The answer is 4.''" world0 "''hello''"
            "''The answer is 4.''" empty_registry "[]"]
          final_answer_round[of 1 params2 "answering ''<tool_call>not json</tool_call>''" world0
            "''again''" "''<tool_call>not json</tool_call>''" empty_registry "[]"]
          a b
    by (simp add: m r u l w)
qed

text \<open>
  Claim C4 as stated fails where the block's JSON lacks a \<open>tool\<close> field. The backend
  answers the first request with a block holding \<open>{"parameters":{}}\<close> and every later one
  with \<open>done\<close>. The first response is not returned: a call with the tool name \<open>undefined\<close>
  is dispatched to the registry and entered in the audit list, a second round runs, and
  the output is \<open>done\<close>.
\<close>

theorem missing_tool_field_counterexample:
  "generateWithTools missing_tool_field empty_registry params2 world0
     = (Inr \<lparr> final_output = ''done'',
               toolCalls = [\<lparr> toolName = None, parameters = JObj [], timestamp = 1000 \<rparr>] \<rparr>,
        \<lparr> ticks = 1, io_trace = [],
          llm_calls = [\<lparr> req_system = ''sys'', req_user = ''hello'', req_temperature = None \<rparr>,
                       \<lparr> req_system = ''sys'',
                         req_user = not_found_prompt,
                         req_temperature = None \<rparr>],
          tool_calls = [(None, JObj [])] \<rparr>)
   \<and> buildToolResultPrompt missing_tool_field ''hello''
          \<lparr> parsed_toolName = None, parsed_parameters = JObj [] \<rparr>
          \<lparr> success = False, result = None,
            error = Some ''Tool undefined not found'', executionTime = 0 \<rparr>
       = Inr not_found_prompt"
  apply (simp add: generateWithTools_def params2_def world0_def)
  apply (subst generateWithTools_loop.simps)
  apply (simp add: maxIterations_def generate_def missing_tool_field_def backend_env_def
       buildToolPrompt_def parseToolCall_def match_tool_call_def startsWith_def trim_def trim_end_def
       is_ws_def JSON_parse_fragment_def try_catch_def bindE_def get_prop_def truthy_def
       executeTool_def bindIO_def catchIO_def returnIO_def liftE_def note_dispatch_def tools_get_def
       empty_registry_def js_String_def Date_now_def tick_def Let_def buildToolResultPrompt_def
       not_found_prompt_def)
  apply (subst generateWithTools_loop.simps)
  apply (simp add: maxIterations_def generate_def missing_tool_field_def backend_env_def
       buildToolPrompt_def parseToolCall_def match_tool_call_def startsWith_def)
  done

section \<open>Tool registry\<close>

text \<open>
  Claim C2. The tool name is a string, as the signature of \<open>executeTool\<close> declares it.
  \<open>executeTool\<close> never throws: for every registry, name, parameters and world it returns a
  tool result. A name that the registry does not hold gives exactly
  \<open>{success: false, error: "Tool <name> not found", executionTime: 0}\<close>; a value thrown by
  the provider gives \<open>success = false\<close> with the thrown message as \<open>error\<close> and
  \<open>executionTime = 0\<close>; a result that the provider returns, so also a failure that it
  reports, is returned as it is.
\<close>

theorem executeTool_never_throws:
  "(\<exists>r w'. executeTool reg (Some (JStr name)) params w = (Inr r, w'))
   \<and> (tools reg name = None \<longrightarrow>
        fst (executeTool reg (Some (JStr name)) params w)
          = Inr \<lparr> success = False, result = None,
                   error = Some (''Tool '' @ name @ '' not found''), executionTime = 0 \<rparr>)
   \<and> (\<forall>tool err s. tools reg name = Some tool
          \<and> execute tool params (sys_of w) = (Inl err, s) \<longrightarrow>
        fst (executeTool reg (Some (JStr name)) params w)
          = Inr \<lparr> success = False, result = None, error = Some (error_message err),
                   executionTime = 0 \<rparr>)
   \<and> (\<forall>tool r s. tools reg name = Some tool
          \<and> execute tool params (sys_of w) = (Inr r, s) \<longrightarrow>
        fst (executeTool reg (Some (JStr name)) params w) = Inr r)"
  by (auto simp: executeTool_def bindIO_def catchIO_def returnIO_def liftE_def note_dispatch_def
        in_world_def sys_of_def tools_get_def js_String_string
      split: option.splits prod.splits sum.splits)

theorem executeTool_never_throws_witness:
  "fst (executeTool two_tools (Some (JStr ''missing'')) (JObj []) world0)
     = Inr \<lparr> success = False, result = None, error = Some ''Tool missing not found'',
              executionTime = 0 \<rparr>
   \<and> fst (executeTool two_tools (Some (JStr ''boom'')) (JObj []) world0)
     = Inr \<lparr> success = False, result = None, error = Some ''boom'', executionTime = 0 \<rparr>
   \<and> fst (executeTool two_tools (Some (JStr ''deny'')) (JObj []) world0)
     = Inr \<lparr> success = False, result = None, error = Some ''denied'', executionTime = 3 \<rparr>"
proof -
  have t: "tools two_tools ''missing'' = None"
          "tools two_tools ''boom'' = Some throwing_provider"
          "tools two_tools ''deny'' = Some refusing_provider"
    by (simp_all add: two_tools_def register_def empty_registry_def
          throwing_provider_def refusing_provider_def)
  have x: "execute throwing_provider (JObj []) (sys_of world0)
             = (Inl (Error ''Error'' ''boom''), sys_of world0)"
          "execute refusing_provider (JObj []) (sys_of world0)
             = (Inr \<lparr> success = False, result = None, error = Some ''denied'', executionTime = 3 \<rparr>,
                sys_of world0)"
    by (simp_all add: throwing_provider_def refusing_provider_def throwIO_def returnIO_def)
  show ?thesis
    using executeTool_never_throws[of two_tools "''missing''" "JObj []" world0]
          executeTool_never_throws[of two_tools "''boom''" "JObj []" world0]
          executeTool_never_throws[of two_tools "''deny''" "JObj []" world0]
          t x
    by (simp add: error_message_def)
qed

section \<open>Code execution tool: no failure escapes\<close>

lemma executeJavaScript_shape:
  assumes "executeJavaScript clk vm this code s = (Inr r, s')"
  shows "ToolResult_invariant r
     \<and> (success r \<longrightarrow>
          (\<exists>script v. js_String code = Inr script
              \<and> run_in_context vm (length (io_trace s) + 2) (wrappedCode script) (timeout this) = Inr v))"
  using assms
  by (auto simp: executeJavaScript_def bindIO_def catchIO_def finallyIO_def returnIO_def nowIO_def
        external_def liftE_def Let_def ToolResult_invariant_def tick_def
      split: sum.splits prod.splits if_splits)

lemma CodeExecutionTool_execute_shape:
  "\<exists>r s'. CodeExecutionTool_execute clk vm this params s = (Inr r, s')
      \<and> ToolResult_invariant r
      \<and> (success r \<longrightarrow>
           (\<exists>code script v. get_prop params ''language'' = Inr (Some (JStr ''javascript''))
               \<and> get_prop params ''code'' = Inr code \<and> js_String code = Inr script
               \<and> script_run vm this s script = Inr v))"
proof -
  let ?body = "bindIO (liftE (get_prop params ''language'')) (\<lambda>language.
            if language = Some (JStr ''javascript'')
            then bindIO (liftE (get_prop params ''code'')) (executeJavaScript clk vm this)
            else bindIO (liftE (get_prop params ''code'')) executePython)"
  obtain o1 s1 where b: "?body (tick s) = (o1, s1)" by (cases "?body (tick s)")
  show ?thesis
  proof (cases o1)
    case (Inl err)
    with b show ?thesis
      by (simp add: CodeExecutionTool_execute_def bindIO_def catchIO_def nowIO_def returnIO_def
            ToolResult_invariant_def)
  next
    case (Inr r)
    with b have "ToolResult_invariant r
        \<and> (success r \<longrightarrow>
           (\<exists>code script v. get_prop params ''language'' = Inr (Some (JStr ''javascript''))
               \<and> get_prop params ''code'' = Inr code \<and> js_String code = Inr script
               \<and> script_run vm this s script = Inr v))"
      using executeJavaScript_shape[of clk vm this _ "tick s" r s1]
      by (auto simp: bindIO_def liftE_def executePython_def returnIO_def ToolResult_invariant_def
            script_run_def tick_def
          split: sum.splits prod.splits if_splits)
    with b Inr show ?thesis
      by (simp add: CodeExecutionTool_execute_def bindIO_def catchIO_def nowIO_def)
  qed
qed

text \<open>
  Claim C7. \<open>CodeExecutionTool.execute\<close> returns a tool result for every input, whatever
  the isolate does (creating it, preparing the context, running the script, reading the
  heap statistics and disposing of it may each throw): nothing escapes as an exception.
  The result is a success only if the request is for \<open>javascript\<close> and the run of the
  submitted code, wrapped, returned normally; so whenever that run throws (an error of the
  script, the timeout, the memory limit), the result has \<open>success = false\<close>, no \<open>result\<close> and
  an \<open>error\<close>. For a request whose \<open>language\<close> is not \<open>javascript\<close> the result is the
  not-implemented failure with \<open>executionTime = 0\<close>, at once: the clock is read once and no
  isolate is created and no code is run.
\<close>

theorem code_execution_never_throws:
  "(\<exists>r s'. CodeExecutionTool_execute clk vm this params s = (Inr r, s')
        \<and> (success r \<longrightarrow>
             (\<exists>code script v. get_prop params ''language'' = Inr (Some (JStr ''javascript''))
                 \<and> get_prop params ''code'' = Inr code \<and> js_String code = Inr script
                 \<and> script_run vm this s script = Inr v)))
   \<and> (\<forall>code script err. get_prop params ''code'' = Inr code \<and> js_String code = Inr script
          \<and> script_run vm this s script = Inl err
        \<longrightarrow> (\<exists>r s'. CodeExecutionTool_execute clk vm this params s = (Inr r, s')
               \<and> \<not> success r \<and> result r = None \<and> error r \<noteq> None))
   \<and> (\<forall>language. get_prop params ''language'' = Inr language
          \<and> language \<noteq> Some (JStr ''javascript'')
        \<longrightarrow> CodeExecutionTool_execute clk vm this params s = (Inr python_stub, tick s))"
proof -
  obtain r s' where r: "CodeExecutionTool_execute clk vm this params s = (Inr r, s')"
      "ToolResult_invariant r"
      "success r \<longrightarrow>
           (\<exists>code script v. get_prop params ''language'' = Inr (Some (JStr ''javascript''))
               \<and> get_prop params ''code'' = Inr code \<and> js_String code = Inr script
               \<and> script_run vm this s script = Inr v)"
    using CodeExecutionTool_execute_shape[of clk vm this params s] by blast
  have a: "\<exists>r s'. CodeExecutionTool_execute clk vm this params s = (Inr r, s')
        \<and> (success r \<longrightarrow>
             (\<exists>code script v. get_prop params ''language'' = Inr (Some (JStr ''javascript''))
                 \<and> get_prop params ''code'' = Inr code \<and> js_String code = Inr script
                 \<and> script_run vm this s script = Inr v))"
    using r(1,3) by blast
  have nb: "\<not> success r"
    if "get_prop params ''code'' = Inr code" "js_String code = Inr script"
       "script_run vm this s script = Inl err" for code script err
    using r(3) that by auto
  have b: "\<forall>code script err. get_prop params ''code'' = Inr code \<and> js_String code = Inr script
          \<and> script_run vm this s script = Inl err
        \<longrightarrow> (\<exists>r s'. CodeExecutionTool_execute clk vm this params s = (Inr r, s')
               \<and> \<not> success r \<and> result r = None \<and> error r \<noteq> None)"
    using r(1,2) nb unfolding ToolResult_invariant_def by blast
  have c: "\<forall>language. get_prop params ''language'' = Inr language
          \<and> language \<noteq> Some (JStr ''javascript'')
        \<longrightarrow> CodeExecutionTool_execute clk vm this params s = (Inr python_stub, tick s)"
    by (auto simp: CodeExecutionTool_execute_def bindIO_def catchIO_def nowIO_def liftE_def
          executePython_def returnIO_def python_stub_def get_prop_def split: json.splits)
  from a b c show ?thesis by (intro conjI)
qed

lemma js_request_fields:
  "get_prop js_request ''language'' = Inr (Some (JStr ''javascript''))"
  "get_prop js_request ''code'' = Inr (Some (JStr ''return 42''))"
  "js_String (Some (JStr ''return 42'')) = Inr ''return 42''"
  by (simp_all add: get_prop_def js_request_def js_String_def)

lemma run_js_working:
  "\<exists>s'. CodeExecutionTool_execute clock0 working_vm tool0 js_request sys0
     = (Inr \<lparr> success = True,
               result = Some (JObj [(''returnValue'', JNum 42), (''output'', JArr [JStr ''hi'']),
                                    (''language'', JStr ''javascript''), (''executionTime'', JNum 7),
                                    (''memoryUsedMB'', JStr ''1.50'')]),
               error = None, executionTime = 7 \<rparr>, s')"
  by (simp add: CodeExecutionTool_execute_def executeJavaScript_def bindIO_def catchIO_def
        finallyIO_def returnIO_def nowIO_def external_def liftE_def Let_def get_prop_def
        js_request_def sys0_def working_vm_def tool0_def new_CodeExecutionTool_def clock0_def
        Date_now_def tick_def js_String_def toFixed2_MB_def decimal.simps digit_char_def)

theorem code_execution_never_throws_witness:
  "CodeExecutionTool_execute clock0 timing_out_vm tool0 python_request sys0
     = (Inr python_stub, tick sys0)
   \<and> script_run working_vm tool0 sys0 ''return 42'' = Inr (Some (JNum 42), [''hi''])
   \<and> (\<exists>r s'. CodeExecutionTool_execute clock0 working_vm tool0 js_request sys0 = (Inr r, s')
          \<and> success r \<and> executionTime r = 7)
   \<and> script_run timing_out_vm tool0 sys0 ''return 42''
       = Inl (Error ''Error'' ''Script execution timed out.'')
   \<and> (\<exists>r s'. CodeExecutionTool_execute clock0 timing_out_vm tool0 js_request sys0 = (Inr r, s')
          \<and> \<not> success r \<and> result r = None \<and> error r \<noteq> None)"
proof -
  have l: "get_prop python_request ''language'' = Inr (Some (JStr ''python''))"
    by (simp add: get_prop_def python_request_def)
  have a: "CodeExecutionTool_execute clock0 timing_out_vm tool0 python_request sys0
     = (Inr python_stub, tick sys0)"
    using code_execution_never_throws[of clock0 timing_out_vm tool0 python_request sys0] l by simp
  have w: "script_run working_vm tool0 sys0 ''return 42'' = Inr (Some (JNum 42), [''hi''])"
    by (simp add: script_run_def working_vm_def)
  have b: "\<exists>r s'. CodeExecutionTool_execute clock0 working_vm tool0 js_request sys0 = (Inr r, s')
          \<and> success r \<and> executionTime r = 7"
    using run_js_working by auto
  have t: "script_run timing_out_vm tool0 sys0 ''return 42''
       = Inl (Error ''Error'' ''Script execution timed out.'')"
    by (simp add: script_run_def timing_out_vm_def)
  have c: "\<exists>r s'. CodeExecutionTool_execute clock0 timing_out_vm tool0 js_request sys0 = (Inr r, s')
          \<and> \<not> success r \<and> result r = None \<and> error r \<noteq> None"
    using code_execution_never_throws[of clock0 timing_out_vm tool0 js_request sys0]
          js_request_fields t
    by blast
  from a w b t c show ?thesis by (intro conjI)
qed

section \<open>The invariant of tool results\<close>

lemma FilesystemTool_execute_shape:
  "\<exists>r s'. FilesystemTool_execute clk fs this params s = (Inr r, s') \<and> ToolResult_invariant r"
proof -
  let ?body = "bindIO (liftE (get_prop params ''path'')) (\<lambda>p.
          bindIO (liftE (resolve_checked fs (workingDirectory this) p)) (\<lambda>resolvedPath.
            if \<not> startsWith resolvedPath (workingDirectory this)
            then throwIO (Error ''Error'' ''Path outside working directory'')
            else
              (let ext = path_extname fs resolvedPath
               in bindIO (liftE (get_prop params ''operation'')) (\<lambda>operation.
                    if operation \<noteq> Some (JStr ''list'') \<and> ext \<noteq> []
                       \<and> ext \<notin> set (allowedExtensions this)
                    then throwIO (Error ''Error'' (''File extension '' @ ext @ '' not allowed''))
                    else
                      bindIO (FilesystemTool_switch fs params operation p resolvedPath) (\<lambda>r.
                      bindIO (nowIO clk) (\<lambda>t.
                        returnIO \<lparr> success = True, result = r, error = None,
                                   executionTime = t - Date_now clk s \<rparr>))))))"
  obtain o1 s1 where b: "?body (tick s) = (o1, s1)" by (cases "?body (tick s)")
  show ?thesis
  proof (cases o1)
    case (Inl err)
    with b show ?thesis
      by (simp add: FilesystemTool_execute_def bindIO_def catchIO_def nowIO_def returnIO_def
            ToolResult_invariant_def)
  next
    case (Inr r)
    with b have "success r"
      by (auto simp: bindIO_def liftE_def throwIO_def returnIO_def nowIO_def Let_def
               split: sum.splits prod.splits if_splits)
    with b Inr show ?thesis
      by (simp add: FilesystemTool_execute_def bindIO_def catchIO_def nowIO_def
            ToolResult_invariant_def)
  qed
qed

lemma WebSearchTool_execute_shape:
  "WebSearchTool_execute clk search this params s = (Inr r, s') \<Longrightarrow> ToolResult_invariant r"
  by (auto simp: WebSearchTool_execute_def bindIO_def catchIO_def nowIO_def returnIO_def liftE_def
        throwIO_def external_def Let_def ToolResult_invariant_def
      split: sum.splits prod.splits if_splits option.splits)

lemma executeTool_invariant:
  assumes "\<And>s tool. tools reg s = Some tool \<Longrightarrow> provider_invariant tool"
      and "executeTool reg name params w = (Inr r, w')"
  shows "ToolResult_invariant r"
proof (cases "tools_get reg name")
  case None
  with assms(2) show ?thesis
    by (auto simp: executeTool_def bindIO_def returnIO_def liftE_def note_dispatch_def
          ToolResult_invariant_def split: sum.splits)
next
  case (Some tool)
  then have "provider_invariant tool" using assms(1)
    by (auto simp: tools_get_def split: option.splits json.splits)
  with Some assms(2) show ?thesis
    by (auto simp: executeTool_def bindIO_def catchIO_def returnIO_def liftE_def note_dispatch_def
          in_world_def provider_invariant_def ToolResult_invariant_def
        split: sum.splits prod.splits; blast)
qed

lemma initialized_providers:
  assumes "tools (initializeMCPTools clk fs search vm proc config) s = Some tool"
  shows "provider_invariant tool"
proof -
  from assms have
    "(\<exists>this. tool = FilesystemTool_provider clk fs this)
     \<or> (\<exists>this. tool = WebSearchTool_provider clk search this)
     \<or> (\<exists>this. tool = CodeExecutionTool_provider clk vm this)"
    by (auto simp: initializeMCPTools_def register_def Let_def FilesystemTool_provider_def
          WebSearchTool_provider_def CodeExecutionTool_provider_def split: if_splits)
  then show ?thesis
    using FilesystemTool_execute_shape[of clk fs] WebSearchTool_execute_shape[of clk search]
          CodeExecutionTool_execute_shape[of clk vm]
    unfolding provider_invariant_def
    by (auto simp: FilesystemTool_provider_def WebSearchTool_provider_def
          CodeExecutionTool_provider_def) (metis Pair_inject sum.inject(2))+
qed

text \<open>
  Claim C9. Every tool result that a component produces keeps the invariant
  \<open>success = false \<Longrightarrow> result absent \<and> error present\<close>: the results of the three
  providers' \<open>execute\<close> (code execution, filesystem, web search), the results of the
  registry's \<open>executeTool\<close> on the registry that \<open>initializeMCPTools\<close> builds, and the results
  of \<open>executeTool\<close> on any registry whose providers keep the invariant (its own two
  failures keep it, and a provider's result is passed on unchanged).
\<close>

theorem tool_results_keep_invariant:
  "(\<forall>r s'. CodeExecutionTool_execute clk vm ce params s = (Inr r, s') \<longrightarrow> ToolResult_invariant r)
   \<and> (\<forall>r s'. FilesystemTool_execute clk fs ft params s = (Inr r, s') \<longrightarrow> ToolResult_invariant r)
   \<and> (\<forall>r s'. WebSearchTool_execute clk search ws params s = (Inr r, s') \<longrightarrow> ToolResult_invariant r)
   \<and> (\<forall>r w'. executeTool (initializeMCPTools clk fs search vm proc config) name params w = (Inr r, w')
         \<longrightarrow> ToolResult_invariant r)
   \<and> ((\<forall>s tool. tools reg s = Some tool \<longrightarrow> provider_invariant tool)
        \<longrightarrow> (\<forall>r w'. executeTool reg name params w = (Inr r, w') \<longrightarrow> ToolResult_invariant r))"
proof -
  have a: "\<forall>r s'. CodeExecutionTool_execute clk vm ce params s = (Inr r, s') \<longrightarrow> ToolResult_invariant r"
    using CodeExecutionTool_execute_shape[of clk vm ce params s] by auto
  have b: "\<forall>r s'. FilesystemTool_execute clk fs ft params s = (Inr r, s') \<longrightarrow> ToolResult_invariant r"
    using FilesystemTool_execute_shape[of clk fs ft params s] by auto
  have c: "\<forall>r s'. WebSearchTool_execute clk search ws params s = (Inr r, s') \<longrightarrow> ToolResult_invariant r"
    using WebSearchTool_execute_shape by blast
  have d: "\<forall>r w'. executeTool (initializeMCPTools clk fs search vm proc config) name params w = (Inr r, w')
         \<longrightarrow> ToolResult_invariant r"
    using executeTool_invariant[of "initializeMCPTools clk fs search vm proc config" name params w]
          initialized_providers[of clk fs search vm proc config]
    by blast
  have e: "(\<forall>s tool. tools reg s = Some tool \<longrightarrow> provider_invariant tool)
        \<longrightarrow> (\<forall>r w'. executeTool reg name params w = (Inr r, w') \<longrightarrow> ToolResult_invariant r)"
    using executeTool_invariant[of reg name params w] by blast
  from a b c d e show ?thesis by blast
qed

lemma run_registry_timeout:
  "\<exists>w'. executeTool initialized_tools (Some (JStr ''code_execution'')) js_request world0
     = (Inr \<lparr> success = False, result = None, error = Some ''Script execution timed out.'',
               executionTime = 7 \<rparr>, w')"
  by (simp add: executeTool_def initialized_tools_def initializeMCPTools_def register_def
        tools_get_def note_dispatch_def in_world_def sys_of_def
        FilesystemTool_provider_def WebSearchTool_provider_def CodeExecutionTool_provider_def
        FilesystemTool_getSchema_def WebSearchTool_getSchema_def CodeExecutionTool_getSchema_def
        CodeExecutionTool_execute_def executeJavaScript_def bindIO_def catchIO_def
        finallyIO_def returnIO_def nowIO_def external_def liftE_def Let_def get_prop_def
        js_request_def world0_def timing_out_vm_def new_CodeExecutionTool_def clock0_def
        Date_now_def tick_def or_int_def tool_config_field_def no_tool_config_def
        message_or_String_def
        str_includes_def startsWith_def js_String_def)

lemma run_filesystem_outside:
  "\<exists>s'. FilesystemTool_execute clock0 offline_fs (new_FilesystemTool ''/work''
            \<lparr> config_workingDirectory = None, config_allowedExtensions = None \<rparr>)
          (JObj [(''operation'', JStr ''read''), (''path'', JStr ''../etc/passwd'')]) sys0
     = (Inr \<lparr> success = False, result = None, error = Some ''Path outside working directory'',
               executionTime = 7 \<rparr>, s')"
  by (simp add: FilesystemTool_execute_def new_FilesystemTool_def bindIO_def catchIO_def
        returnIO_def throwIO_def nowIO_def liftE_def get_prop_def resolve_checked_def
        offline_fs_def startsWith_def sys0_def clock0_def Date_now_def tick_def error_message_def)

lemma run_deny:
  "\<exists>w'. executeTool two_tools (Some (JStr ''deny'')) (JObj []) world0
     = (Inr \<lparr> success = False, result = None, error = Some ''denied'', executionTime = 3 \<rparr>, w')"
  by (simp add: executeTool_def two_tools_def register_def empty_registry_def tools_get_def
        throwing_provider_def refusing_provider_def bindIO_def catchIO_def returnIO_def
        liftE_def js_String_def note_dispatch_def in_world_def)

theorem tool_results_keep_invariant_witness:
  "(\<exists>r w'. executeTool initialized_tools (Some (JStr ''code_execution'')) js_request world0 = (Inr r, w')
       \<and> \<not> success r \<and> result r = None \<and> error r = Some ''Script execution timed out.'')
   \<and> (\<exists>r s'. FilesystemTool_execute clock0 offline_fs (new_FilesystemTool ''/work''
            \<lparr> config_workingDirectory = None, config_allowedExtensions = None \<rparr>)
          (JObj [(''operation'', JStr ''read''), (''path'', JStr ''../etc/passwd'')]) sys0 = (Inr r, s')
       \<and> \<not> success r \<and> result r = None \<and> error r = Some ''Path outside working directory'')
   \<and> (\<exists>r w'. executeTool two_tools (Some (JStr ''deny'')) (JObj []) world0 = (Inr r, w')
       \<and> \<not> success r \<and> result r = None \<and> error r = Some ''denied'')"
proof -
  have p: "\<forall>s tool. tools two_tools s = Some tool \<longrightarrow> provider_invariant tool"
    by (auto simp: two_tools_def register_def empty_registry_def provider_invariant_def
          throwing_provider_def refusing_provider_def throwIO_def returnIO_def
          ToolResult_invariant_def split: if_splits)
  have a: "\<exists>r w'. executeTool initialized_tools (Some (JStr ''code_execution'')) js_request world0 = (Inr r, w')
       \<and> \<not> success r \<and> result r = None \<and> error r = Some ''Script execution timed out.''"
    using run_registry_timeout
      tool_results_keep_invariant[of clock0 timing_out_vm tool0 js_request sys0 offline_fs
        "new_FilesystemTool ''/work'' \<lparr> config_workingDirectory = None, config_allowedExtensions = None \<rparr>"
        offline_search "new_WebSearchTool \<lparr> config_apiKey = None, config_searchEngine = None \<rparr>"
        process0 no_tool_config "Some (JStr ''code_execution'')" world0 two_tools]
    by (auto simp: initialized_tools_def ToolResult_invariant_def)
  have b: "\<exists>r s'. FilesystemTool_execute clock0 offline_fs (new_FilesystemTool ''/work''
            \<lparr> config_workingDirectory = None, config_allowedExtensions = None \<rparr>)
          (JObj [(''operation'', JStr ''read''), (''path'', JStr ''../etc/passwd'')]) sys0 = (Inr r, s')
       \<and> \<not> success r \<and> result r = None \<and> error r = Some ''Path outside working directory''"
    using run_filesystem_outside
      tool_results_keep_invariant[of clock0 timing_out_vm tool0
        "JObj [(''operation'', JStr ''read''), (''path'', JStr ''../etc/passwd'')]" sys0 offline_fs
        "new_FilesystemTool ''/work'' \<lparr> config_workingDirectory = None, config_allowedExtensions = None \<rparr>"
        offline_search "new_WebSearchTool \<lparr> config_apiKey = None, config_searchEngine = None \<rparr>"
        process0 no_tool_config "Some (JStr ''deny'')" world0 two_tools]
    by (auto simp: ToolResult_invariant_def)
  have c: "\<exists>r w'. executeTool two_tools (Some (JStr ''deny'')) (JObj []) world0 = (Inr r, w')
       \<and> \<not> success r \<and> result r = None \<and> error r = Some ''denied''"
    using p run_deny tool_results_keep_invariant[of clock0 timing_out_vm tool0 "JObj []" sys0 offline_fs
        "new_FilesystemTool ''/work'' \<lparr> config_workingDirectory = None, config_allowedExtensions = None \<rparr>"
        offline_search "new_WebSearchTool \<lparr> config_apiKey = None, config_searchEngine = None \<rparr>"
        process0 no_tool_config "Some (JStr ''deny'')" world0 two_tools]
    by (auto simp: ToolResult_invariant_def)
  from a b c show ?thesis by (intro conjI)
qed

section \<open>Parallel workflow: lemmas\<close>

lemma started_branches_snoc:
  "started_branches e registry ctx (bs @ [b]) w
     = start_branch e registry ctx (started_branches e registry ctx bs w) b"
  by (simp add: started_branches_def)

lemma started_all:
  assumes "\<forall>a\<in>set bs. \<exists>ag. registry a = Inr ag"
  shows "rejections (started_branches e registry ctx bs w) = []
       \<and> list_all2 belongs_to (map (\<lambda>a. projr (registry a)) bs)
            (promises (started_branches e registry ctx bs w))
       \<and> llm_calls (join_world (started_branches e registry ctx bs w))
            = llm_calls w @ map (\<lambda>a. prompt_request (buildPrompt (projr (registry a)) ctx)) bs
       \<and> tool_calls (join_world (started_branches e registry ctx bs w)) = tool_calls w"
  using assms
proof (induction bs rule: rev_induct)
  case Nil
  then show ?case by (simp add: started_branches_def)
next
  case (snoc b bs)
  then obtain ag where ag: "registry b = Inr ag" by auto
  from snoc have ih:
    "rejections (started_branches e registry ctx bs w) = []"
    "list_all2 belongs_to (map (\<lambda>a. projr (registry a)) bs)
            (promises (started_branches e registry ctx bs w))"
    "llm_calls (join_world (started_branches e registry ctx bs w))
            = llm_calls w @ map (\<lambda>a. prompt_request (buildPrompt (projr (registry a)) ctx)) bs"
    "tool_calls (join_world (started_branches e registry ctx bs w)) = tool_calls w"
    by auto
  have "list_all2 belongs_to (map (\<lambda>a. projr (registry a)) bs @ [ag])
          (promises (started_branches e registry ctx bs w) @ [Pending ag t n req])" for t n req
    by (intro list_all2_appendI ih(2)) (simp add: belongs_to_def)
  then show ?case
    unfolding started_branches_snoc
    using ih(1,3,4) ag
    by (simp add: start_branch_def Let_def tick_def)
qed

lemma complete_branch_good:
  assumes ok: "\<forall>n req. \<exists>out. llm e n req = Inr out"
      and "list_all2 belongs_to ags (promises j)" and "rejections j = []"
  shows "list_all2 belongs_to ags (promises (complete_branch e j i))
       \<and> rejections (complete_branch e j i) = []
       \<and> llm_calls (join_world (complete_branch e j i)) = llm_calls (join_world j)
       \<and> tool_calls (join_world (complete_branch e j i)) = tool_calls (join_world j)"
proof (cases "i < length (promises j)")
  case False
  with assms show ?thesis by (simp add: complete_branch_def)
next
  case True
  show ?thesis
  proof (cases "promises j ! i")
    case (Settled x)
    with True assms show ?thesis by (simp add: complete_branch_def)
  next
    case (Pending ag t n req)
    obtain out where out: "llm e n req = Inr out" using ok by blast
    from assms(2) True have len: "i < length ags" and b: "belongs_to (ags ! i) (promises j ! i)"
      by (auto simp: list_all2_conv_all_nth)
    with Pending have a: "ags ! i = ag" by (simp add: belongs_to_def)
    have "list_all2 belongs_to (ags[i := ag])
            ((promises j)[i := Settled (Inr \<lparr> agentId = agent_id ag, entry_role = role ag,
                 entry_output = out, startedAt = t,
                 endedAt = Date_now (clock e) (join_world j) \<rparr>)])"
      using assms(2) by (intro list_all2_update_cong) (simp_all add: belongs_to_def)
    moreover have "ags[i := ag] = ags" using a len by (simp add: list_update_same_conv)
    ultimately show ?thesis
      using True Pending out assms(3)
      by (simp add: complete_branch_def settle_def tick_def)
  qed
qed

lemma complete_all_good:
  assumes ok: "\<forall>n req. \<exists>out. llm e n req = Inr out"
      and "list_all2 belongs_to ags (promises j)" and "rejections j = []"
  shows "list_all2 belongs_to ags (promises (foldl (complete_branch e) j sched))
       \<and> rejections (foldl (complete_branch e) j sched) = []
       \<and> llm_calls (join_world (foldl (complete_branch e) j sched)) = llm_calls (join_world j)
       \<and> tool_calls (join_world (foldl (complete_branch e) j sched)) = tool_calls (join_world j)"
  using assms(2,3)
proof (induction sched arbitrary: j)
  case Nil
  then show ?case by simp
next
  case (Cons i sched)
  from complete_branch_good[OF ok Cons.prems, of i] Cons.IH[of "complete_branch e j i"]
  show ?case by simp
qed

lemma settle_rest_good:
  assumes ok: "\<forall>n req. \<exists>out. llm e n req = Inr out"
      and "list_all2 belongs_to ags ps"
  shows "\<exists>rs w'. settle_rest e ps ([], w) = (map Inr rs, [], w')
           \<and> list_all2 entry_of ags rs
           \<and> llm_calls w' = llm_calls w \<and> tool_calls w' = tool_calls w"
  using assms(2)
proof (induction ags ps arbitrary: w rule: list_all2_induct)
  case Nil
  show ?case by simp
next
  case (Cons ag ags p ps)
  show ?case
  proof (cases p)
    case (Settled x)
    with Cons.hyps(1) obtain r where x: "x = Inr r" "entry_of ag r"
      by (cases x) (auto simp: belongs_to_def entry_of_def)
    from Cons.IH[of w] obtain rs w' where
      "settle_rest e ps ([], w) = (map Inr rs, [], w')" "list_all2 entry_of ags rs"
      "llm_calls w' = llm_calls w" "tool_calls w' = tool_calls w" by blast
    with Settled x show ?thesis
      by (intro exI[of _ "r # rs"] exI[of _ w']) simp
  next
    case (Pending a t n req)
    with Cons.hyps(1) have a: "a = ag" by (simp add: belongs_to_def)
    obtain out where out: "llm e n req = Inr out" using ok by blast
    define r where "r = \<lparr> agentId = agent_id ag, entry_role = role ag, entry_output = out,
                          startedAt = t, endedAt = Date_now (clock e) w \<rparr>"
    from Cons.IH[of "tick w"] obtain rs w' where
      "settle_rest e ps ([], tick w) = (map Inr rs, [], w')" "list_all2 entry_of ags rs"
      "llm_calls w' = llm_calls (tick w)" "tool_calls w' = tool_calls (tick w)" by blast
    moreover have "entry_of ag r" by (simp add: r_def entry_of_def)
    moreover have "settle e ag t n req ([], w) = (Inr r, [], tick w)"
      using out by (simp add: settle_def r_def)
    ultimately show ?thesis using Pending a
      by (intro exI[of _ "r # rs"] exI[of _ w']) (simp add: tick_def)
  qed
qed

lemma all_values_Inr: "all_values (map Inr rs) = Inr rs"
  by (induction rs) simp_all

lemma timeline_merged: "timeline (foldl merge_result ctx rs) = timeline ctx @ rs"
  by (induction rs arbitrary: ctx) (simp_all add: merge_result_def)

lemma userInput_merged: "userInput (foldl merge_result ctx rs) = userInput ctx"
  by (induction rs arbitrary: ctx) (simp_all add: merge_result_def)

lemma run_branches_good:
  assumes reg: "\<forall>a\<in>set bs. \<exists>ag. registry a = Inr ag"
      and ok: "\<forall>n req. \<exists>out. llm e n req = Inr out"
  shows "\<exists>rs w'. run_branches e sched registry ctx bs w = (Inr rs, w')
           \<and> list_all2 entry_of (map (\<lambda>a. projr (registry a)) bs) rs
           \<and> llm_calls w' = llm_calls w
                @ map (\<lambda>a. prompt_request (buildPrompt (projr (registry a)) ctx)) bs
           \<and> tool_calls w' = tool_calls w"
proof -
  let ?ags = "map (\<lambda>a. projr (registry a)) bs"
  let ?j1 = "started_branches e registry ctx bs w"
  let ?j2 = "foldl (complete_branch e) ?j1 sched"
  from started_all[OF reg, of e ctx w] have s:
    "rejections ?j1 = []" "list_all2 belongs_to ?ags (promises ?j1)"
    "llm_calls (join_world ?j1)
       = llm_calls w @ map (\<lambda>a. prompt_request (buildPrompt (projr (registry a)) ctx)) bs"
    "tool_calls (join_world ?j1) = tool_calls w"
    by auto
  from complete_all_good[OF ok s(2) s(1), of sched] have c:
    "list_all2 belongs_to ?ags (promises ?j2)" "rejections ?j2 = []"
    "llm_calls (join_world ?j2) = llm_calls (join_world ?j1)"
    "tool_calls (join_world ?j2) = tool_calls (join_world ?j1)"
    by auto
  from settle_rest_good[OF ok c(1), of "join_world ?j2"] obtain rs w' where r:
    "settle_rest e (promises ?j2) ([], join_world ?j2) = (map Inr rs, [], w')"
    "list_all2 entry_of ?ags rs"
    "llm_calls w' = llm_calls (join_world ?j2)" "tool_calls w' = tool_calls (join_world ?j2)"
    by blast
  have "run_branches e sched registry ctx bs w = (Inr rs, w')"
    using r(1) c(2) by (simp add: run_branches_def Let_def Promise_all_def all_values_Inr)
  with r(2,3,4) c(3,4) s(3,4) show ?thesis by simp
qed

lemma settle_rejections:
  assumes "settle e ag t n req (rej, w) = (outcome, rej', w')"
  shows "(rej \<noteq> [] \<longrightarrow> rej' \<noteq> []) \<and> ((\<exists>err. llm e n req = Inl err) \<longrightarrow> rej' \<noteq> [])"
  using assms by (auto simp: settle_def split: sum.splits)

lemma complete_branch_failing:
  assumes "rejections j \<noteq> []
           \<or> (k < length (promises j) \<and> promises j ! k = Pending ag t n req)"
      and "llm e n req = Inl err"
  shows "rejections (complete_branch e j i) \<noteq> []
         \<or> (k < length (promises (complete_branch e j i))
             \<and> promises (complete_branch e j i) ! k = Pending ag t n req)"
proof (cases "i < length (promises j)")
  case False
  with assms show ?thesis by (simp add: complete_branch_def)
next
  case True
  show ?thesis
  proof (cases "promises j ! i")
    case (Settled x)
    with True assms show ?thesis by (simp add: complete_branch_def)
  next
    case (Pending ag' t' n' req')
    obtain outcome rej' w' where
      st: "settle e ag' t' n' req' (rejections j, join_world j) = (outcome, rej', w')"
      by (cases "settle e ag' t' n' req' (rejections j, join_world j)") auto
    from settle_rejections[OF st] assms Pending True st show ?thesis
      by (cases "i = k") (auto simp: complete_branch_def)
  qed
qed

lemma complete_all_failing:
  assumes "rejections j \<noteq> []
           \<or> (k < length (promises j) \<and> promises j ! k = Pending ag t n req)"
      and "llm e n req = Inl err"
  shows "rejections (foldl (complete_branch e) j sched) \<noteq> []
         \<or> (k < length (promises (foldl (complete_branch e) j sched))
             \<and> promises (foldl (complete_branch e) j sched) ! k = Pending ag t n req)"
  using assms(1)
proof (induction sched arbitrary: j)
  case Nil
  then show ?case by simp
next
  case (Cons i sched)
  from complete_branch_failing[OF Cons.prems assms(2), of i] Cons.IH[of "complete_branch e j i"]
  show ?case by simp
qed

lemma settle_rest_failing:
  assumes "settle_rest e ps (rej, w) = (outs, rej', w')"
      and "rej \<noteq> [] \<or> (\<exists>ag t n req err. Pending ag t n req \<in> set ps \<and> llm e n req = Inl err)"
  shows "rej' \<noteq> []"
  using assms
proof (induction ps arbitrary: rej w outs rej' w')
  case Nil
  then show ?case by simp
next
  case (Cons p ps)
  show ?case
  proof (cases p)
    case (Settled x)
    with Cons.prems obtain outs1 where "settle_rest e ps (rej, w) = (outs1, rej', w')"
      by (auto split: prod.splits)
    moreover from Cons.prems(2) Settled
    have "rej \<noteq> [] \<or> (\<exists>ag t n req err. Pending ag t n req \<in> set ps \<and> llm e n req = Inl err)"
      by auto
    ultimately show ?thesis using Cons.IH by blast
  next
    case (Pending ag t n req)
    obtain outcome rej1 w1 where st: "settle e ag t n req (rej, w) = (outcome, rej1, w1)"
      by (cases "settle e ag t n req (rej, w)") auto
    with Cons.prems(1) Pending obtain outs1 where r: "settle_rest e ps (rej1, w1) = (outs1, rej', w')"
      by (auto split: prod.splits)
    from Cons.prems(2) Pending settle_rejections[OF st]
    have "rej1 \<noteq> [] \<or> (\<exists>ag t n req err. Pending ag t n req \<in> set ps \<and> llm e n req = Inl err)"
      by auto
    with r show ?thesis using Cons.IH by blast
  qed
qed

lemma run_branches_failing:
  assumes "Pending ag t n req \<in> set (promises (started_branches e registry ctx bs w))"
      and "llm e n req = Inl err"
  shows "\<exists>err' w'. run_branches e sched registry ctx bs w = (Inl err', w')"
proof -
  let ?j1 = "started_branches e registry ctx bs w"
  let ?j2 = "foldl (complete_branch e) ?j1 sched"
  from assms(1) obtain k where "k < length (promises ?j1)" "promises ?j1 ! k = Pending ag t n req"
    by (auto simp: in_set_conv_nth)
  then have "rejections ?j2 \<noteq> []
         \<or> (k < length (promises ?j2) \<and> promises ?j2 ! k = Pending ag t n req)"
    using complete_all_failing[OF _ assms(2), of ?j1 k ag t sched] by blast
  then have h: "rejections ?j2 \<noteq> []
         \<or> (\<exists>ag t n req err. Pending ag t n req \<in> set (promises ?j2) \<and> llm e n req = Inl err)"
    using assms(2) by (metis nth_mem)
  obtain outs rej' w' where
    sr: "settle_rest e (promises ?j2) (rejections ?j2, join_world ?j2) = (outs, rej', w')"
    by (cases "settle_rest e (promises ?j2) (rejections ?j2, join_world ?j2)") auto
  from settle_rest_failing[OF sr h] obtain err' rest where "rej' = err' # rest"
    by (cases rej') auto
  with sr show ?thesis by (simp add: run_branches_def Let_def Promise_all_def)
qed

section \<open>Parallel workflow: timeline order and join\<close>

lemma entries_ids:
  assumes "list_all2 entry_of (map f bs) rs" and "\<forall>a\<in>set bs. agent_id (f a) = a"
  shows "map agentId rs = bs"
proof -
  from assms(1) have len: "length rs = length bs" by (auto dest: list_all2_lengthD)
  show ?thesis
  proof (rule nth_equalityI)
    show "length (map agentId rs) = length bs" using len by simp
  next
    fix i assume "i < length (map agentId rs)"
    then have i: "i < length bs" using len by simp
    with assms(1) have "entry_of (f (bs ! i)) (rs ! i)"
      by (auto simp: list_all2_conv_all_nth)
    with i assms(2) show "map agentId rs ! i = bs ! i"
      using len by (simp add: entry_of_def)
  qed
qed

text \<open>
  Claim C5. Let every branch id and the then id be registered under its own id, and let
  the backend answer every request. Then, for every order \<open>sched\<close> in which the backend
  answers the branch requests, the parallel workflow completes and the records it appends
  to the timeline are those of the branches in declaration order followed by the then
  agent's. The branch requests are all built from the context as it was before the run;
  the then agent's request is the last backend call, built from the context into which
  every branch result has been merged.
\<close>

theorem parallel_timeline_order:
  assumes "\<forall>a\<in>set (bs @ [then_agent then_cfg]). \<exists>ag. registry a = Inr ag \<and> agent_id ag = a"
      and "\<forall>n req. \<exists>out. llm e n req = Inr out"
  shows "\<exists>rs final w'.
           runParallelWorkflow e sched bs then_cfg registry ctx w
             = (Inr (), merge_result (foldl merge_result ctx rs) final, w')
         \<and> map agentId rs = bs \<and> agentId final = then_agent then_cfg
         \<and> timeline (merge_result (foldl merge_result ctx rs) final) = timeline ctx @ rs @ [final]
         \<and> timeline (foldl merge_result ctx rs) = timeline ctx @ rs
         \<and> llm_calls w' = llm_calls w
              @ map (\<lambda>a. prompt_request (buildPrompt (projr (registry a)) ctx)) bs
              @ [prompt_request (buildPrompt (projr (registry (then_agent then_cfg)))
                                   (foldl merge_result ctx rs))]"
proof -
  from assms(1) have reg: "\<forall>a\<in>set bs. \<exists>ag. registry a = Inr ag"
    and ids: "\<forall>a\<in>set bs. agent_id (projr (registry a)) = a"
    by auto
  from assms(1) obtain d where d: "registry (then_agent then_cfg) = Inr d"
      "agent_id d = then_agent then_cfg"
    by auto
  from run_branches_good[OF reg assms(2), of sched ctx w] obtain rs w1 where b:
    "run_branches e sched registry ctx bs w = (Inr rs, w1)"
    "list_all2 entry_of (map (\<lambda>a. projr (registry a)) bs) rs"
    "llm_calls w1 = llm_calls w
       @ map (\<lambda>a. prompt_request (buildPrompt (projr (registry a)) ctx)) bs"
    by blast
  let ?merged = "foldl merge_result ctx rs"
  let ?req = "prompt_request (buildPrompt d ?merged)"
  obtain out where out: "llm e (length (llm_calls (tick w1))) ?req = Inr out"
    using assms(2) by blast
  define final where
    "final = \<lparr> agentId = agent_id d, entry_role = role d, entry_output = out,
               startedAt = Date_now (clock e) w1,
               endedAt = Date_now (clock e) (tick w1\<lparr>llm_calls := llm_calls (tick w1) @ [?req]\<rparr>) \<rparr>"
  define w' where "w' = tick (tick w1\<lparr>llm_calls := llm_calls (tick w1) @ [?req]\<rparr>)"
  have run: "runParallelWorkflow e sched bs then_cfg registry ctx w
               = (Inr (), merge_result ?merged final, w')"
    using b(1) d(1) out
    by (simp add: runParallelWorkflow_def Let_def generate_def final_def w'_def)
  have ids': "map agentId rs = bs" using entries_ids[OF b(2) ids] .
  have calls: "llm_calls w' = llm_calls w
              @ map (\<lambda>a. prompt_request (buildPrompt (projr (registry a)) ctx)) bs
              @ [prompt_request (buildPrompt (projr (registry (then_agent then_cfg))) ?merged)]"
    using b(3) d(1) by (simp add: w'_def tick_def)
  have tl: "timeline (merge_result ?merged final) = timeline ctx @ rs @ [final]"
    by (simp add: merge_result_def timeline_merged)
  from run ids' calls tl d(2) show ?thesis
    by (intro exI[of _ rs] exI[of _ final] exI[of _ w'])
       (simp add: timeline_merged final_def)
qed

lemma four_agents_registered:
  "\<forall>a\<in>set ([''A'', ''B'', ''C''] @ [then_agent then_D]).
      \<exists>ag. four_agents a = Inr ag \<and> agent_id ag = a"
  by (simp add: four_agents_def agent_named_def then_D_def)

theorem parallel_timeline_order_witness:
  "(\<forall>n req. \<exists>out. llm (answering ''ok'') n req = Inr out)
   \<and> (\<exists>ctx' w'. runParallelWorkflow (answering ''ok'') [2, 0, 1] [''A'', ''B'', ''C''] then_D
                    four_agents context0 world0 = (Inr (), ctx', w')
          \<and> map agentId (timeline ctx') = [''A'', ''B'', ''C'', ''D''])"
proof -
  have ok: "\<forall>n req. \<exists>out. llm (answering ''ok'') n req = Inr out"
    by (simp add: answering_def backend_env_def)
  from parallel_timeline_order[OF four_agents_registered ok, of "[2, 0, 1]" context0 world0]
  obtain rs final w' where r:
    "runParallelWorkflow (answering ''ok'') [2, 0, 1] [''A'', ''B'', ''C''] then_D
        four_agents context0 world0
       = (Inr (), merge_result (foldl merge_result context0 rs) final, w')"
    "map agentId rs = [''A'', ''B'', ''C'']" "agentId final = then_agent then_D"
    "timeline (merge_result (foldl merge_result context0 rs) final)
       = timeline context0 @ rs @ [final]"
    by (elim exE conjE)
  have m: "map agentId (timeline (merge_result (foldl merge_result context0 rs) final))
          = [''A'', ''B'', ''C'', ''D'']"
    using r(2,3,4) by (simp add: context0_def then_D_def)
  have c: "\<exists>ctx' w'. runParallelWorkflow (answering ''ok'') [2, 0, 1] [''A'', ''B'', ''C''] then_D
                    four_agents context0 world0 = (Inr (), ctx', w')
          \<and> map agentId (timeline ctx') = [''A'', ''B'', ''C'', ''D'']"
    by (rule exI[of _ "merge_result (foldl merge_result context0 rs) final"], rule exI[of _ w'])
       (simp only: r(1) m)
  from ok c show ?thesis by (intro conjI)
qed

text \<open>
  Claim C6. If the request of at least one branch is answered by a throw, then, whatever
  the order of the answers and whatever the other branches return, the parallel workflow
  throws and hands back the context exactly as it received it: no branch result is merged
  into \<open>outputs\<close> or \<open>timeline\<close>.
\<close>

theorem parallel_join_fails_unmerged:
  assumes "Pending ag t n req \<in> set (promises (started_branches e registry ctx bs w))"
      and "llm e n req = Inl err"
  shows "\<exists>err' w'. runParallelWorkflow e sched bs then_cfg registry ctx w = (Inl err', ctx, w')"
proof -
  from run_branches_failing[OF assms, of sched] obtain err' w' where
    "run_branches e sched registry ctx bs w = (Inl err', w')" by blast
  then show ?thesis by (simp add: runParallelWorkflow_def)
qed

lemma second_branch_pending:
  "Pending (agent_named ''B'') 1001 1 (prompt_request (buildPrompt (agent_named ''B'') context0))
     \<in> set (promises (started_branches second_call_fails four_agents context0
                         [''A'', ''B'', ''C''] world0))"
  by (simp add: started_branches_def start_branch_def four_agents_def Let_def world0_def
        second_call_fails_def backend_env_def Date_now_def tick_def)

theorem parallel_join_fails_unmerged_witness:
  "Pending (agent_named ''B'') 1001 1 (prompt_request (buildPrompt (agent_named ''B'') context0))
     \<in> set (promises (started_branches second_call_fails four_agents context0
                         [''A'', ''B'', ''C''] world0))
   \<and> llm second_call_fails 1 (prompt_request (buildPrompt (agent_named ''B'') context0))
       = Inl (Error ''Error'' ''503 Service Unavailable'')
   \<and> (\<exists>err' w'. runParallelWorkflow second_call_fails [2, 0, 1] [''A'', ''B'', ''C''] then_D
                    four_agents context0 world0 = (Inl err', context0, w'))"
proof -
  have f: "llm second_call_fails 1 (prompt_request (buildPrompt (agent_named ''B'') context0))
       = Inl (Error ''Error'' ''503 Service Unavailable'')"
    by (simp add: second_call_fails_def backend_env_def)
  from parallel_join_fails_unmerged[OF second_branch_pending f, of "[2, 0, 1]" then_D]
       second_branch_pending f
  show ?thesis by blast
qed

section \<open>Workflow engine: unknown workflow type\<close>

text \<open>
  Claim C1, as the code has it. For a configuration whose workflow type is neither
  \<open>sequential\<close> nor \<open>parallel\<close>, \<open>runWorkflow\<close> runs no strategy: it makes no backend call,
  leaves the context and the world as they are, and returns normally. It raises no error.
\<close>

theorem unknown_workflow_type_runs_nothing:
  assumes "workflow_type (workflow config) \<noteq> ''sequential''"
      and "workflow_type (workflow config) \<noteq> ''parallel''"
  shows "runWorkflow strat e sched config registry mcpRegistry ctx w = (Inr (), ctx, w)"
  using assms by (simp add: runWorkflow_def)

theorem unknown_workflow_type_runs_nothing_witness:
  "workflow_type (workflow (config_of_type ''iterative'')) \<noteq> ''sequential''
   \<and> workflow_type (workflow (config_of_type ''iterative'')) \<noteq> ''parallel''
   \<and> runWorkflow refusing_strategies (answering ''ok'') [] (config_of_type ''iterative'')
        four_agents None context0 world0 = (Inr (), context0, world0)"
proof -
  have a: "workflow_type (workflow (config_of_type ''iterative'')) \<noteq> ''sequential''"
   and b: "workflow_type (workflow (config_of_type ''iterative'')) \<noteq> ''parallel''"
    by (simp_all add: config_of_type_def)
  from unknown_workflow_type_runs_nothing[OF a b] a b show ?thesis by blast
qed

text \<open>
  Claim C1 as stated fails: with the workflow type \<open>pipeline\<close> the engine returns without
  an error, the context and the world unchanged.
\<close>

theorem unknown_workflow_type_counterexample:
  "runWorkflow refusing_strategies (answering ''ok'') [] (config_of_type ''pipeline'')
     four_agents None context0 world0 = (Inr (), context0, world0)"
  by (simp add: runWorkflow_def config_of_type_def)

section \<open>Prompt builder\<close>

lemma is_ws_chars [simp]:
  "is_ws CHR ''\<newline>''" "is_ws CHR '' ''" "\<not> is_ws CHR ''-''" "\<not> is_ws CHR ''U''"
  "\<not> is_ws CHR '':''"
  by (simp_all add: is_ws_def)

lemma trim_end_nonws: "\<not> is_ws c \<Longrightarrow> trim_end (xs @ c # ys) = xs @ c # trim_end ys"
  by (simp add: trim_end_def dropWhile_append)

lemma trim_end_snoc_ws: "is_ws c \<Longrightarrow> trim_end (xs @ [c]) = trim_end xs"
  by (simp add: trim_end_def)

lemma trim_end_verbatim: "xs \<noteq> [] \<Longrightarrow> \<not> is_ws (last xs) \<Longrightarrow> trim_end (ys @ xs) = ys @ xs"
proof -
  assume a: "xs \<noteq> []" "\<not> is_ws (last xs)"
  then have "ys @ xs = (ys @ butlast xs) @ last xs # []" by simp
  moreover have "trim_end ((ys @ butlast xs) @ last xs # []) = (ys @ butlast xs) @ last xs # trim_end []"
    using a(2) by (rule trim_end_nonws)
  ultimately show ?thesis by (simp add: trim_end_def)
qed

lemma foldl_append_concat: "foldl (\<lambda>acc x. acc @ f x) init xs = init @ concat (map f xs)"
  by (induction xs arbitrary: init) simp_all

lemma user_prompt_empty:
  "user (buildPrompt agent (ctx\<lparr>timeline := []\<rparr>))
     = ''User input:'' @ trim_end (''\<newline>'' @ userInput ctx)"
proof -
  have "trim_end (''User input:\<newline>'' @ userInput ctx @ ''\<newline>'')
        = trim_end (''User input'' @ CHR '':'' # (''\<newline>'' @ userInput ctx @ ''\<newline>''))"
    by simp
  also have "\<dots> = ''User input'' @ CHR '':'' # trim_end (''\<newline>'' @ userInput ctx @ ''\<newline>'')"
    by (rule trim_end_nonws) simp
  also have "trim_end (''\<newline>'' @ userInput ctx @ ''\<newline>'') = trim_end (''\<newline>'' @ userInput ctx)"
    using trim_end_snoc_ws[of "CHR ''\<newline>''" "''\<newline>'' @ userInput ctx"] by simp
  finally show ?thesis by (simp add: buildPrompt_def trim_def)
qed

lemma user_prompt_nonempty:
  "user (buildPrompt agent (ctx\<lparr>timeline := rs @ [r]\<rparr>))
     = ''User input:\<newline>'' @ userInput ctx @ ''\<newline>\<newline>Previous agent outputs:\<newline>''
       @ concat (map entry_block rs)
       @ ''\<newline>--- '' @ entry_role r @ '' ('' @ agentId r @ '') ---''
       @ trim_end (''\<newline>'' @ entry_output r)"
proof -
  define X where
    "X = ''ser input:\<newline>'' @ userInput ctx @ ''\<newline>\<newline>Previous agent outputs:\<newline>''
           @ concat (map entry_block rs)
           @ ''\<newline>--- '' @ entry_role r @ '' ('' @ agentId r @ '') --''"
  have eb: "entry_block r
        = (''\<newline>--- '' @ entry_role r @ '' ('' @ agentId r @ '') --'')
            @ CHR ''-'' # ((''\<newline>'' @ entry_output r) @ [CHR ''\<newline>''])"
    by (simp add: entry_block_def)
  have whole: "foldl (\<lambda>acc entry. acc @ entry_block entry)
          ((''User input:\<newline>'' @ userInput ctx @ ''\<newline>'') @ ''\<newline>Previous agent outputs:\<newline>'')
          (rs @ [r])
        = (CHR ''U'' # X) @ CHR ''-'' # ((''\<newline>'' @ entry_output r) @ [CHR ''\<newline>''])"
    by (simp add: foldl_append_concat X_def eb)
  have "trim_end ((CHR ''U'' # X) @ CHR ''-'' # ((''\<newline>'' @ entry_output r) @ [CHR ''\<newline>'']))
        = (CHR ''U'' # X) @ CHR ''-'' # trim_end ((''\<newline>'' @ entry_output r) @ [CHR ''\<newline>''])"
    by (rule trim_end_nonws) simp
  also have "trim_end ((''\<newline>'' @ entry_output r) @ [CHR ''\<newline>''])
        = trim_end (''\<newline>'' @ entry_output r)"
    by (rule trim_end_snoc_ws) simp
  finally have t: "trim (foldl (\<lambda>acc entry. acc @ entry_block entry)
          ((''User input:\<newline>'' @ userInput ctx @ ''\<newline>'') @ ''\<newline>Previous agent outputs:\<newline>'')
          (rs @ [r]))
        = (CHR ''U'' # X) @ CHR ''-'' # trim_end (''\<newline>'' @ entry_output r)"
    unfolding whole by (simp add: trim_def)
  have "user (buildPrompt agent (ctx\<lparr>timeline := rs @ [r]\<rparr>))
        = trim (foldl (\<lambda>acc entry. acc @ entry_block entry)
          ((''User input:\<newline>'' @ userInput ctx @ ''\<newline>'') @ ''\<newline>Previous agent outputs:\<newline>'')
          (rs @ [r]))"
    by (simp add: buildPrompt_def Let_def del: foldl_append)
  then show ?thesis unfolding t by (simp add: X_def)
qed

text \<open>
  Claim C8, as the code has it. \<open>buildPrompt\<close> is a function of the agent and the context.
  With an empty timeline the user prompt is \<open>User input:\<close>, a line break and the user
  input, and nothing else: there is no prior-output section. With a non-empty timeline it
  is that header and the user input verbatim, the line \<open>Previous agent outputs:\<close>, and
  then one block per record in timeline order, each rendering that record's role,
  agentId and output verbatim. The whole prompt is trimmed, so what ends it (the user
  input under an empty timeline, the last record's output otherwise) loses its trailing
  white space; it is verbatim when it is not empty and does not end in white space.
\<close>

theorem buildPrompt_user_prompt:
  "user (buildPrompt agent (ctx\<lparr>timeline := []\<rparr>))
     = ''User input:'' @ trim_end (''\<newline>'' @ userInput ctx)
   \<and> user (buildPrompt agent (ctx\<lparr>timeline := rs @ [r]\<rparr>))
     = ''User input:\<newline>'' @ userInput ctx @ ''\<newline>\<newline>Previous agent outputs:\<newline>''
       @ concat (map entry_block rs)
       @ ''\<newline>--- '' @ entry_role r @ '' ('' @ agentId r @ '') ---''
       @ trim_end (''\<newline>'' @ entry_output r)
   \<and> (userInput ctx \<noteq> [] \<and> \<not> is_ws (last (userInput ctx))
        \<longrightarrow> user (buildPrompt agent (ctx\<lparr>timeline := []\<rparr>)) = ''User input:\<newline>'' @ userInput ctx)
   \<and> (entry_output r \<noteq> [] \<and> \<not> is_ws (last (entry_output r))
        \<longrightarrow> user (buildPrompt agent (ctx\<lparr>timeline := rs @ [r]\<rparr>))
            = ''User input:\<newline>'' @ userInput ctx @ ''\<newline>\<newline>Previous agent outputs:\<newline>''
              @ concat (map entry_block rs)
              @ ''\<newline>--- '' @ entry_role r @ '' ('' @ agentId r @ '') ---\<newline>'' @ entry_output r)"
  using user_prompt_empty[of agent ctx] user_prompt_nonempty[of agent rs r ctx]
        trim_end_verbatim[of "userInput ctx" "''\<newline>''"]
        trim_end_verbatim[of "entry_output r" "''\<newline>''"]
  by simp

theorem buildPrompt_user_prompt_witness:
  "user (buildPrompt (agent_named ''D'') (context0\<lparr>timeline := []\<rparr>)) = ''User input:\<newline>question''
   \<and> user (buildPrompt (agent_named ''D'') (context0\<lparr>timeline := [] @ [record_A]\<rparr>))
       = ''User input:\<newline>question\<newline>\<newline>Previous agent outputs:\<newline>\<newline>--- Researcher (A) ---\<newline>Found it.''"
proof -
  have u: "userInput context0 = ''question''" by (simp add: context0_def)
  have o: "entry_output record_A = ''Found it.''" "entry_role record_A = ''Researcher''"
          "agentId record_A = ''A''"
    by (simp_all add: record_A_def)
  show ?thesis
    using buildPrompt_user_prompt[of "agent_named ''D''" context0 "[]" record_A]
    by (simp add: u o is_ws_def trim_end_def)
qed

text \<open>
  Claim C8 as stated fails on trailing white space. A user input \<open>hi\<close> followed by a space
  is not contained in the prompt of an empty timeline, and the output of the last record,
  \<open>done\<close> followed by a line break, is not contained in the prompt that renders it.
\<close>

theorem buildPrompt_verbatim_counterexample:
  "user (buildPrompt (agent_named ''D'') \<lparr> userInput = ''hi '', outputs = Map.empty, timeline = [] \<rparr>)
     = ''User input:\<newline>hi''
   \<and> \<not> str_includes
         (user (buildPrompt (agent_named ''D'')
                  \<lparr> userInput = ''hi '', outputs = Map.empty, timeline = [] \<rparr>)) ''hi ''
   \<and> user (buildPrompt (agent_named ''D'')
             \<lparr> userInput = ''question'', outputs = Map.empty, timeline = [record_newline] \<rparr>)
     = ''User input:\<newline>question\<newline>\<newline>Previous agent outputs:\<newline>\<newline>--- Researcher (A) ---\<newline>done''
   \<and> \<not> str_includes
         (user (buildPrompt (agent_named ''D'')
                  \<lparr> userInput = ''question'', outputs = Map.empty, timeline = [record_newline] \<rparr>))
         (entry_output record_newline)"
  by (simp add: buildPrompt_def trim_def trim_end_def is_ws_def entry_block_def record_newline_def
        str_includes_def startsWith_def)

end
